theory Spec2Isabelle
  imports Main
begin

text \<open>
  A shallow embedding of the ERC-721 event adapter of the indexer
  (\<^verbatim>\<open>src/sync/onchain/events/erc721/index.ts\<close>) and of the primary key of the
  \<^verbatim>\<open>cancel_events\<close> migration. The adapter's \<^verbatim>\<open>try\<close> block is a function from the
  three accumulated arrays to an optional thrown error and the arrays as the block left
  them; the loop, the store calls and the queue call thread a record of the outside
  world. What the adapter imports (the base-parameter extractor, the two interface
  objects, the configuration flag) is a parameter of the model, with one concrete
  environment for evaluation.
\<close>

section \<open>JavaScript values, errors and string helpers\<close>

text \<open>
  A thrown JavaScript value, kept as the text that \<^verbatim>\<open>`${error}`\<close> renders.
\<close>

datatype js_error = Error string

fun error_text :: "js_error \<Rightarrow> string" where
  "error_text (Error m) = m"

text \<open>
  The values a decoded log argument can hold: \<^verbatim>\<open>undefined\<close> for a property that
  is not there, a string (an address), a BigNumber (a \<^verbatim>\<open>uint256\<close>) or a boolean.
\<close>

datatype js_value = JUndefined | JString string | JBigNumber int | JBoolean bool

definition char_toLowerCase :: "char \<Rightarrow> char" where
  "char_toLowerCase c =
     (case map_of (zip ''ABCDEFGHIJKLMNOPQRSTUVWXYZ'' ''abcdefghijklmnopqrstuvwxyz'') c of
        Some d \<Rightarrow> d
      | None \<Rightarrow> c)"

definition string_toLowerCase :: "string \<Rightarrow> string" where
  "string_toLowerCase s = map char_toLowerCase s"

text \<open>
  \<^verbatim>\<open>v.toLowerCase()\<close>: defined on strings only; on \<^verbatim>\<open>undefined\<close> and on a value
  without that method JavaScript throws a TypeError.
\<close>

fun toLowerCase :: "js_value \<Rightarrow> js_error + string" where
  "toLowerCase (JString s) = Inr (string_toLowerCase s)"
| "toLowerCase JUndefined =
     Inl (Error ''TypeError: Cannot read properties of undefined (reading 'toLowerCase')'')"
| "toLowerCase _ = Inl (Error ''TypeError: toLowerCase is not a function'')"

definition digit_char :: "int \<Rightarrow> char" where
  "digit_char i =
     (case map_of (zip [0, 1, 2, 3, 4, 5, 6, 7, 8, 9] ''0123456789'') (i mod 10) of
        Some c \<Rightarrow> c
      | None \<Rightarrow> CHR ''0'')"

function digits_toString :: "int \<Rightarrow> string" where
  "digits_toString i =
     (if i < 10 then [digit_char i] else digits_toString (i div 10) @ [digit_char i])"
  by pat_completeness auto
termination
  by (relation "measure nat") auto

declare digits_toString.simps [simp del]

text \<open>\<^verbatim>\<open>n.toString()\<close> of an integral number or of a BigNumber: its decimal digits.\<close>

definition number_toString :: "int \<Rightarrow> string" where
  "number_toString i =
     (if i < 0 then CHR ''-'' # digits_toString (- i) else digits_toString i)"

text \<open>\<^verbatim>\<open>v.toString()\<close>: throws on \<^verbatim>\<open>undefined\<close>, renders every other value.\<close>

fun toString :: "js_value \<Rightarrow> js_error + string" where
  "toString JUndefined =
     Inl (Error ''TypeError: Cannot read properties of undefined (reading 'toString')'')"
| "toString (JString s) = Inr s"
| "toString (JBigNumber n) = Inr (number_toString n)"
| "toString (JBoolean b) = Inr (if b then ''true'' else ''false'')"

section \<open>Data model\<close>

text \<open>
  The provider's log record (\<^verbatim>\<open>Log\<close> of \<^verbatim>\<open>@ethersproject/abstract-provider\<close>).
  Hashes, addresses, topics and data are hex strings. Block hash, transaction hash and
  log index are optional: they are the metadata whose absence the base-parameter
  extractor reports.
\<close>

record Log =
  log_blockNumber :: int
  log_blockHash :: "string option"
  log_transactionIndex :: int
  log_removed :: bool
  log_address :: string
  log_data :: string
  log_topics :: "string list"
  log_transactionHash :: "string option"
  log_logIndex :: "int option"

record BaseEventParams =
  bp_address :: string
  bp_block :: int
  bp_blockHash :: string
  bp_txHash :: string
  bp_txIndex :: int
  bp_logIndex :: int
  bp_timestamp :: int

record NftTransferEvent =
  t_tokenId :: string
  t_from :: string
  t_to :: string
  t_amount :: string
  t_baseParams :: BaseEventParams

record NftApprovalEvent =
  a_owner :: string
  a_operator :: string
  a_approved :: js_value
  a_baseParams :: BaseEventParams

text \<open>
  \<^verbatim>\<open>MakerInfo\<close>: the optional fields are \<open>None\<close> where the object literal of the
  source leaves them out.
\<close>

record MakerInfo =
  mi_context :: string
  mi_side :: string
  mi_maker :: string
  mi_contract :: string
  mi_tokenId :: "string option"
  mi_operator :: "string option"
  mi_approved :: "js_value option"
  mi_checkApproval :: "bool option"

text \<open>
  \<^verbatim>\<open>LogDescription\<close>: reading \<^verbatim>\<open>parsedLog.args.name\<close> either throws (the library
  defers a value's decoding error to the access) or gives a value.
\<close>

record LogDescription =
  ld_name :: string
  ld_args :: "string \<Rightarrow> js_error + js_value"

text \<open>
  An \<^verbatim>\<open>Interface\<close> object of \<^verbatim>\<open>@ethersproject/abi\<close>, by the two methods the
  adapter calls.
\<close>

record Interface =
  getEventTopic :: "string \<Rightarrow> string"
  parseLog :: "Log \<Rightarrow> js_error + LogDescription"

text \<open>
  What the adapter imports from the rest of the repository and from its two module-level
  \<^verbatim>\<open>Interface\<close> constants: \<^verbatim>\<open>parseEvent\<close> (\<^verbatim>\<open>@/events/parser\<close>),
  \<^verbatim>\<open>abi\<close>, \<^verbatim>\<open>nonStandardAbi\<close> and \<^verbatim>\<open>config.acceptOrders\<close>.
\<close>

record env =
  parseEvent :: "Log \<Rightarrow> js_error + BaseEventParams"
  abi :: Interface
  nonStandardAbi :: Interface
  acceptOrders :: bool

text \<open>The three arrays \<^verbatim>\<open>syncCallback\<close> accumulates into.\<close>

record acc =
  approvalEvents :: "NftApprovalEvent list"
  transferEvents :: "NftTransferEvent list"
  makerInfos :: "MakerInfo list"

text \<open>
  The world outside the adapter: the two event tables, the batches handed to the
  maker-update queue (one entry per call), and the error lines of the logger
  (component, message). Tables, queue and logger are held in memory: a call to them
  always returns, so a database or queue outage is outside this model.
\<close>

record world =
  nft_approval_events :: "NftApprovalEvent list"
  nft_transfer_events :: "NftTransferEvent list"
  orders_update_by_maker :: "MakerInfo list list"
  logger_errors :: "(string \<times> string) list"

section \<open>Event store\<close>

text \<open>
  A table is the list of its rows. The migration \<^verbatim>\<open>1643809164130_cancels.sql\<close>
  creates \<^verbatim>\<open>cancel_events\<close> with nine \<^verbatim>\<open>NOT NULL\<close> columns and the constraint
  \<^verbatim>\<open>cancel_events_pk PRIMARY KEY (block_hash, tx_hash, log_index)\<close>. The column type
  \<^verbatim>\<open>order_kind_t\<close> is declared by another migration and is a type parameter here.
\<close>

record 'k cancel_events_row =
  ce_address :: string
  ce_block :: int
  ce_block_hash :: string
  ce_tx_hash :: string
  ce_tx_index :: int
  ce_log_index :: int
  ce_timestamp :: int
  ce_order_kind :: 'k
  ce_order_id :: string

definition cancel_events_pk :: "'k cancel_events_row \<Rightarrow> string \<times> string \<times> int" where
  "cancel_events_pk r = (ce_block_hash r, ce_tx_hash r, ce_log_index r)"

text \<open>
  The four \<^verbatim>\<open>INT\<close> columns are 32-bit signed integers: a value outside that range is
  refused.
\<close>

definition int4 :: "int \<Rightarrow> bool" where
  "int4 i = (- 2147483648 \<le> i \<and> i \<le> 2147483647)"

definition cancel_events_fits :: "'k cancel_events_row \<Rightarrow> bool" where
  "cancel_events_fits r =
     (int4 (ce_block r) \<and> int4 (ce_tx_index r) \<and> int4 (ce_log_index r) \<and>
      int4 (ce_timestamp r))"

datatype sql_error = numeric_value_out_of_range | unique_violation string

text \<open>
  \<^verbatim>\<open>INSERT INTO cancel_events\<close> of one row: the database refuses a row with a value
  that does not fit its column, and a row whose key is already stored.
\<close>

definition insert_row ::
  "'k cancel_events_row \<Rightarrow> 'k cancel_events_row list \<Rightarrow> sql_error + 'k cancel_events_row list" where
  "insert_row r rows =
     (if \<not> cancel_events_fits r then Inl numeric_value_out_of_range
      else if cancel_events_pk r \<in> set (map cancel_events_pk rows)
      then Inl (unique_violation ''cancel_events_pk'')
      else Inr (rows @ [r]))"

text \<open>
  Modelled from the spec: the store's \<^verbatim>\<open>add\<close> for cancel events (the function lives
  in \<^verbatim>\<open>@/events/common\<close>, which is not among the sources). The spec (4.3): \<^emph>\<open>upserts
  by dedup key (blockHash, txHash, logIndex); re-adding an already-stored event is a
  no-op with respect to visible state. Empty input is a no-op.\<close> A row whose key is
  stored is skipped; a row that does not fit its columns fails the whole call, and the
  table stays as it was.
\<close>

fun addCancelEvents ::
  "'k cancel_events_row list \<Rightarrow> 'k cancel_events_row list \<Rightarrow> sql_error + 'k cancel_events_row list" where
  "addCancelEvents [] rows = Inr rows"
| "addCancelEvents (r # events) rows =
     (case insert_row r rows of
        Inl numeric_value_out_of_range \<Rightarrow> Inl numeric_value_out_of_range
      | Inl (unique_violation c) \<Rightarrow> addCancelEvents events rows
      | Inr rows' \<Rightarrow> addCancelEvents events rows')"

text \<open>
  Modelled from the spec: the store's \<^verbatim>\<open>add\<close> for the two NFT event kinds
  (\<^verbatim>\<open>addNftApprovalEvents\<close>, \<^verbatim>\<open>addNftTransferEvents\<close>, not among the sources), by the
  same words of the spec (4.3): a row whose key is stored is left alone. The migrations
  of these tables are not among the sources and the spec gives their index columns as
  integers without a width, so no column range is modelled for them.
\<close>

definition add_row :: "('r \<Rightarrow> 'key) \<Rightarrow> 'r \<Rightarrow> 'r list \<Rightarrow> 'r list" where
  "add_row pk r rows = (if pk r \<in> set (map pk rows) then rows else rows @ [r])"

text \<open>
  Modelled from the spec: \<^verbatim>\<open>add(events)\<close> on a batch (4.3), one row after the other.
\<close>

definition add_rows :: "('r \<Rightarrow> 'key) \<Rightarrow> 'r list \<Rightarrow> 'r list \<Rightarrow> 'r list" where
  "add_rows pk rs rows = fold (add_row pk) rs rows"

text \<open>
  Modelled from the spec: the dedup key of an event, \<^emph>\<open>(blockHash, txHash, logIndex)\<close>
  of its base parameters (section 3); the tables of the two NFT event kinds are created
  by migrations that are not among the sources.
\<close>

definition dedup_key :: "BaseEventParams \<Rightarrow> string \<times> string \<times> int" where
  "dedup_key b = (bp_blockHash b, bp_txHash b, bp_logIndex b)"

text \<open>
  Modelled from the spec: \<^verbatim>\<open>addNftApprovalEvents\<close>, the \<^verbatim>\<open>add\<close> of the approval
  table (4.3).
\<close>

definition addNftApprovalEvents :: "NftApprovalEvent list \<Rightarrow> world \<Rightarrow> world" where
  "addNftApprovalEvents events w =
     w\<lparr>nft_approval_events :=
         add_rows (\<lambda>e. dedup_key (a_baseParams e)) events
           (nft_approval_events w)\<rparr>"

text \<open>
  Modelled from the spec: \<^verbatim>\<open>addNftTransferEvents\<close>, the \<^verbatim>\<open>add\<close> of the transfer
  table (4.3).
\<close>

definition addNftTransferEvents :: "NftTransferEvent list \<Rightarrow> world \<Rightarrow> world" where
  "addNftTransferEvents events w =
     w\<lparr>nft_transfer_events :=
         add_rows (\<lambda>e. dedup_key (t_baseParams e)) events
           (nft_transfer_events w)\<rparr>"

text \<open>
  Modelled from the spec: \<^verbatim>\<open>removeByBlockHash\<close> (\<^verbatim>\<open>removeNftApprovalEvents\<close>,
  \<^verbatim>\<open>removeNftTransferEvents\<close>, not among the sources). The spec (4.3): \<^emph>\<open>deletes
  every stored event (of the relevant kind) whose baseParams.blockHash equals the given
  hash\<close>, and returns the count.
\<close>

definition removeByBlockHash ::
  "('r \<Rightarrow> BaseEventParams) \<Rightarrow> string \<Rightarrow> 'r list \<Rightarrow> 'r list \<times> nat" where
  "removeByBlockHash base blockHash rows =
     (filter (\<lambda>r. bp_blockHash (base r) \<noteq> blockHash) rows,
      length (filter (\<lambda>r. bp_blockHash (base r) = blockHash) rows))"

text \<open>
  Modelled from the spec: \<^verbatim>\<open>removeNftApprovalEvents\<close>, \<^verbatim>\<open>removeByBlockHash\<close> on the
  approval table; the count is dropped, as \<^verbatim>\<open>fixCallback\<close> does not read it.
\<close>

definition removeNftApprovalEvents :: "string \<Rightarrow> world \<Rightarrow> world" where
  "removeNftApprovalEvents blockHash w =
     w\<lparr>nft_approval_events :=
         fst (removeByBlockHash a_baseParams blockHash (nft_approval_events w))\<rparr>"

text \<open>
  Modelled from the spec: \<^verbatim>\<open>removeNftTransferEvents\<close>, \<^verbatim>\<open>removeByBlockHash\<close> on the
  transfer table.
\<close>

definition removeNftTransferEvents :: "string \<Rightarrow> world \<Rightarrow> world" where
  "removeNftTransferEvents blockHash w =
     w\<lparr>nft_transfer_events :=
         fst (removeByBlockHash t_baseParams blockHash (nft_transfer_events w))\<rparr>"

section \<open>Maker-update queue and logger\<close>

text \<open>
  Modelled from the spec: \<^verbatim>\<open>addToOrdersUpdateByMakerQueue\<close> (\<^verbatim>\<open>@/jobs/orders-update\<close>,
  not among the sources). The spec (4.4): \<^emph>\<open>enqueue(items: [MakerInfo]) -> ()\<close>. Each
  call is recorded with the batch it was given.
\<close>

definition addToOrdersUpdateByMakerQueue :: "MakerInfo list \<Rightarrow> world \<Rightarrow> world" where
  "addToOrdersUpdateByMakerQueue items w =
     w\<lparr>orders_update_by_maker := orders_update_by_maker w @ [items]\<rparr>"

text \<open>
  \<^verbatim>\<open>logger.error(component, message)\<close> appends one line. In the message of the
  adapter, \<^verbatim>\<open>${log}\<close> renders a plain object, which JavaScript prints as
  \<^verbatim>\<open>[object Object]\<close>.
\<close>

definition logger_error :: "string \<Rightarrow> string \<Rightarrow> (string \<times> string) list \<Rightarrow> (string \<times> string) list" where
  "logger_error component message lines = lines @ [(component, message)]"

definition could_not_parse :: "js_error \<Rightarrow> string" where
  "could_not_parse e = ''Could not parse log [object Object]: '' @ error_text e"

section \<open>The ERC-721 adapter\<close>

text \<open>\<^verbatim>\<open>parsedLog.args.name.toLowerCase()\<close> and \<^verbatim>\<open>parsedLog.args.name.toString()\<close>.\<close>

definition args_toLowerCase :: "LogDescription \<Rightarrow> string \<Rightarrow> js_error + string" where
  "args_toLowerCase parsedLog name =
     (case ld_args parsedLog name of
        Inl err \<Rightarrow> Inl err
      | Inr v \<Rightarrow> toLowerCase v)"

definition args_toString :: "LogDescription \<Rightarrow> string \<Rightarrow> js_error + string" where
  "args_toString parsedLog name =
     (case ld_args parsedLog name of
        Inl err \<Rightarrow> Inl err
      | Inr v \<Rightarrow> toString v)"

text \<open>
  The inner \<^verbatim>\<open>try\<close>/\<^verbatim>\<open>catch\<close> of the \<^verbatim>\<open>Transfer\<close> case: the standard interface
  first, the non-standard one when that throws; what the second throws is not caught here.
\<close>

definition parseTransferLog :: "env \<Rightarrow> Log \<Rightarrow> js_error + LogDescription" where
  "parseTransferLog e log =
     (case parseLog (abi e) log of
        Inr parsedLog \<Rightarrow> Inr parsedLog
      | Inl _ \<Rightarrow> parseLog (nonStandardAbi e) log)"

text \<open>
  The body of the \<^verbatim>\<open>Transfer\<close> case. Every step that can throw returns the error
  together with the arrays as they are at that point; the three pushes follow in the
  order of the source.
\<close>

definition transferCase ::
  "env \<Rightarrow> Log \<Rightarrow> BaseEventParams \<Rightarrow> string \<Rightarrow> acc \<Rightarrow> js_error option \<times> acc" where
  "transferCase e log baseParams context a =
     (case parseTransferLog e log of
        Inl err \<Rightarrow> (Some err, a)
      | Inr parsedLog \<Rightarrow>
          (case args_toLowerCase parsedLog ''from'' of
             Inl err \<Rightarrow> (Some err, a)
           | Inr from \<Rightarrow>
          (case args_toLowerCase parsedLog ''to'' of
             Inl err \<Rightarrow> (Some err, a)
           | Inr to \<Rightarrow>
          (case args_toString parsedLog ''tokenId'' of
             Inl err \<Rightarrow> (Some err, a)
           | Inr tokenId \<Rightarrow>
             (let amount = ''1'';
                  a1 = a\<lparr>transferEvents := transferEvents a @
                         [\<lparr>t_tokenId = tokenId, t_from = from, t_to = to,
                           t_amount = amount, t_baseParams = baseParams\<rparr>]\<rparr>;
                  a2 = a1\<lparr>makerInfos := makerInfos a1 @
                         [\<lparr>mi_context = context, mi_side = ''sell'', mi_maker = from,
                           mi_contract = bp_address baseParams, mi_tokenId = Some tokenId,
                           mi_operator = None, mi_approved = None,
                           mi_checkApproval = None\<rparr>]\<rparr>;
                  a3 = a2\<lparr>makerInfos := makerInfos a2 @
                         [\<lparr>mi_context = context, mi_side = ''sell'', mi_maker = to,
                           mi_contract = bp_address baseParams, mi_tokenId = Some tokenId,
                           mi_operator = None, mi_approved = None,
                           mi_checkApproval = None\<rparr>]\<rparr>
              in (None, a3))))))"

text \<open>The body of the \<^verbatim>\<open>ApprovalForAll\<close> case: one parse attempt, two pushes.\<close>

definition approvalForAllCase ::
  "env \<Rightarrow> Log \<Rightarrow> BaseEventParams \<Rightarrow> string \<Rightarrow> acc \<Rightarrow> js_error option \<times> acc" where
  "approvalForAllCase e log baseParams context a =
     (case parseLog (abi e) log of
        Inl err \<Rightarrow> (Some err, a)
      | Inr parsedLog \<Rightarrow>
          (case args_toLowerCase parsedLog ''owner'' of
             Inl err \<Rightarrow> (Some err, a)
           | Inr owner \<Rightarrow>
          (case args_toLowerCase parsedLog ''operator'' of
             Inl err \<Rightarrow> (Some err, a)
           | Inr operator \<Rightarrow>
          (case ld_args parsedLog ''approved'' of
             Inl err \<Rightarrow> (Some err, a)
           | Inr approved \<Rightarrow>
             (let a1 = a\<lparr>approvalEvents := approvalEvents a @
                         [\<lparr>a_owner = owner, a_operator = operator,
                           a_approved = approved, a_baseParams = baseParams\<rparr>]\<rparr>;
                  a2 = a1\<lparr>makerInfos := makerInfos a1 @
                         [\<lparr>mi_context = context, mi_side = ''sell'', mi_maker = owner,
                           mi_contract = bp_address baseParams, mi_tokenId = None,
                           mi_operator = Some operator, mi_approved = Some approved,
                           mi_checkApproval = Some True\<rparr>]\<rparr>
              in (None, a2))))))"

text \<open>
  \<^verbatim>\<open>log.topics[0]\<close>: \<^verbatim>\<open>undefined\<close> (here \<open>None\<close>) when the log has no topic.
\<close>

definition topics0 :: "Log \<Rightarrow> string option" where
  "topics0 log = (case log_topics log of [] \<Rightarrow> None | t # _ \<Rightarrow> Some t)"

text \<open>\<^verbatim>\<open>baseParams.txHash + "-" + baseParams.logIndex.toString()\<close>.\<close>

definition context_of :: "BaseEventParams \<Rightarrow> string" where
  "context_of baseParams = bp_txHash baseParams @ ''-'' @ number_toString (bp_logIndex baseParams)"

text \<open>
  The body of the \<^verbatim>\<open>try\<close> block for one log. The case labels are compared in the
  order of the source; \<^verbatim>\<open>undefined\<close> equals none of them, and the \<^verbatim>\<open>switch\<close> has
  no default.
\<close>

definition tryBody :: "env \<Rightarrow> Log \<Rightarrow> acc \<Rightarrow> js_error option \<times> acc" where
  "tryBody e log a =
     (case parseEvent e log of
        Inl err \<Rightarrow> (Some err, a)
      | Inr baseParams \<Rightarrow>
          (let context = context_of baseParams
           in case topics0 log of
                None \<Rightarrow> (None, a)
              | Some topic \<Rightarrow>
                  if topic = getEventTopic (abi e) ''Transfer''
                  then transferCase e log baseParams context a
                  else if topic = getEventTopic (abi e) ''ApprovalForAll''
                  then approvalForAllCase e log baseParams context a
                  else (None, a)))"

text \<open>
  One iteration of the \<^verbatim>\<open>for\<close> loop: the \<^verbatim>\<open>catch\<close> clause logs the error and the
  loop goes on with the arrays as the \<^verbatim>\<open>try\<close> block left them.
\<close>

definition processLog ::
  "env \<Rightarrow> Log \<Rightarrow> acc \<times> (string \<times> string) list \<Rightarrow> acc \<times> (string \<times> string) list" where
  "processLog e log s =
     (case tryBody e log (fst s) of
        (None, a) \<Rightarrow> (a, snd s)
      | (Some err, a) \<Rightarrow> (a, logger_error ''erc721_callback'' (could_not_parse err) (snd s)))"

fun forLoop ::
  "env \<Rightarrow> Log list \<Rightarrow> acc \<times> (string \<times> string) list \<Rightarrow> acc \<times> (string \<times> string) list" where
  "forLoop e [] s = s"
| "forLoop e (log # logs) s = forLoop e logs (processLog e log s)"

text \<open>A missing \<^verbatim>\<open>backfill\<close> argument is \<^verbatim>\<open>undefined\<close>, which \<^verbatim>\<open>!backfill\<close> reads as false.\<close>

fun truthy :: "bool option \<Rightarrow> bool" where
  "truthy None = False"
| "truthy (Some b) = b"

definition empty_acc :: acc where
  "empty_acc = \<lparr>approvalEvents = [], transferEvents = [], makerInfos = []\<rparr>"

definition syncCallback :: "env \<Rightarrow> Log list \<Rightarrow> bool option \<Rightarrow> world \<Rightarrow> world" where
  "syncCallback e logs backfill w =
     (let s = forLoop e logs (empty_acc, logger_errors w);
          w0 = w\<lparr>logger_errors := snd s\<rparr>;
          w1 = addNftApprovalEvents (approvalEvents (fst s)) w0;
          w2 = addNftTransferEvents (transferEvents (fst s)) w1
      in if \<not> truthy backfill \<and> acceptOrders e
         then addToOrdersUpdateByMakerQueue (makerInfos (fst s)) w2
         else w2)"

definition fixCallback :: "string \<Rightarrow> world \<Rightarrow> world" where
  "fixCallback blockHash w = removeNftTransferEvents blockHash (removeNftApprovalEvents blockHash w)"

record log_filter =
  filter_address :: "string list"
  filter_topics :: "string list option"

record ContractInfo =
  ci_filter :: log_filter
  ci_syncCallback :: "Log list \<Rightarrow> bool option \<Rightarrow> world \<Rightarrow> world"
  ci_fixCallback :: "string \<Rightarrow> world \<Rightarrow> world"

text \<open>
  \<^verbatim>\<open>getContractInfo(address = [])\<close>: a missing argument is the empty list. The object
  literal \<^verbatim>\<open>{ address }\<close> sets no topics.
\<close>

definition getContractInfo :: "env \<Rightarrow> string list option \<Rightarrow> ContractInfo" where
  "getContractInfo e address =
     (let address = (case address of None \<Rightarrow> [] | Some a \<Rightarrow> a)
      in \<lparr>ci_filter = \<lparr>filter_address = address, filter_topics = None\<rparr>,
          ci_syncCallback = syncCallback e,
          ci_fixCallback = fixCallback\<rparr>)"

section \<open>Vocabulary of the properties\<close>

text \<open>A log fails to parse when the \<^verbatim>\<open>try\<close> block throws on it.\<close>

definition malformed :: "env \<Rightarrow> Log \<Rightarrow> bool" where
  "malformed e log = (fst (tryBody e log empty_acc) \<noteq> None)"

text \<open>
  A log of the provider's declared type carries its block hash, transaction hash and log
  index.
\<close>

definition carries_metadata :: "Log \<Rightarrow> bool" where
  "carries_metadata log =
     (log_blockHash log \<noteq> None \<and> log_transactionHash log \<noteq> None \<and> log_logIndex log \<noteq> None)"

text \<open>A log is recognised when \<^verbatim>\<open>topics[0]\<close> equals one of the two case labels.\<close>

definition recognised :: "env \<Rightarrow> Log \<Rightarrow> bool" where
  "recognised e log =
     (topics0 log = Some (getEventTopic (abi e) ''Transfer'') \<or>
      topics0 log = Some (getEventTopic (abi e) ''ApprovalForAll''))"

text \<open>The arrays after the loop over a batch, and the number of events in them.\<close>

definition decoded :: "env \<Rightarrow> Log list \<Rightarrow> acc" where
  "decoded e logs = fst (forLoop e logs (empty_acc, []))"

definition event_count :: "acc \<Rightarrow> nat" where
  "event_count a = length (approvalEvents a) + length (transferEvents a)"

text \<open>The primary key of a table holds when no two rows share a key.\<close>

definition pk_holds :: "('r \<Rightarrow> 'key) \<Rightarrow> 'r list \<Rightarrow> bool" where
  "pk_holds pk rows = distinct (map pk rows)"

text \<open>
  Rows are new to a table when their keys are pairwise distinct and none of them is
  stored.
\<close>

definition new_keys :: "('r \<Rightarrow> 'key) \<Rightarrow> 'r list \<Rightarrow> 'r list \<Rightarrow> bool" where
  "new_keys pk rs rows = (distinct (map pk rs) \<and> (\<forall>r\<in>set rs. pk r \<notin> set (map pk rows)))"

definition rows_with_key :: "('r \<Rightarrow> 'key) \<Rightarrow> 'key \<Rightarrow> 'r list \<Rightarrow> nat" where
  "rows_with_key pk k rows = length (filter (\<lambda>r. pk r = k) rows)"

section \<open>A concrete environment\<close>

text \<open>
  The event declarations of the two module-level interfaces, as the source writes them.
\<close>

datatype abi_type = address_t | uint256_t | bool_t

record ParamType =
  pt_name :: string
  pt_type :: abi_type
  pt_indexed :: bool

record EventFragment =
  ef_name :: string
  ef_inputs :: "ParamType list"

definition abi_events :: "EventFragment list" where
  "abi_events =
     [\<lparr>ef_name = ''Transfer'', ef_inputs =
         [\<lparr>pt_name = ''from'', pt_type = address_t, pt_indexed = True\<rparr>,
          \<lparr>pt_name = ''to'', pt_type = address_t, pt_indexed = True\<rparr>,
          \<lparr>pt_name = ''tokenId'', pt_type = uint256_t, pt_indexed = True\<rparr>]\<rparr>,
      \<lparr>ef_name = ''ApprovalForAll'', ef_inputs =
         [\<lparr>pt_name = ''owner'', pt_type = address_t, pt_indexed = True\<rparr>,
          \<lparr>pt_name = ''operator'', pt_type = address_t, pt_indexed = True\<rparr>,
          \<lparr>pt_name = ''approved'', pt_type = bool_t, pt_indexed = False\<rparr>]\<rparr>]"

definition nonStandardAbi_events :: "EventFragment list" where
  "nonStandardAbi_events =
     [\<lparr>ef_name = ''Transfer'', ef_inputs =
         [\<lparr>pt_name = ''from'', pt_type = address_t, pt_indexed = True\<rparr>,
          \<lparr>pt_name = ''to'', pt_type = address_t, pt_indexed = True\<rparr>,
          \<lparr>pt_name = ''tokenId'', pt_type = uint256_t, pt_indexed = False\<rparr>]\<rparr>]"

fun type_name :: "abi_type \<Rightarrow> string" where
  "type_name address_t = ''address''"
| "type_name uint256_t = ''uint256''"
| "type_name bool_t = ''bool''"

fun join_comma :: "string list \<Rightarrow> string" where
  "join_comma [] = []"
| "join_comma [s] = s"
| "join_comma (s # t # ss) = s @ '','' @ join_comma (t # ss)"

text \<open>The canonical signature of an event: its name and its parameter types.\<close>

definition event_signature :: "EventFragment \<Rightarrow> string" where
  "event_signature f =
     ef_name f @ ''('' @ join_comma (map (\<lambda>p. type_name (pt_type p)) (ef_inputs f)) @ '')''"

text \<open>
  The Keccak-256 hashes of the two signatures the adapter declares, as lower-case hex
  (the hash function itself is not defined here; another signature has no entry).
\<close>

definition signature_hash :: "string \<Rightarrow> string" where
  "signature_hash sig =
     (case map_of
        [(''Transfer(address,address,uint256)'',
          ''0xddf252ad1be2c89b69c2b068fc378daa952ba7f163c4a11628f55a4df523b3ef''),
         (''ApprovalForAll(address,address,bool)'',
          ''0x17307eab39ab6107e8899845ad3d59bd9653f200f220920489ca2b5937696c31'')] sig of
        Some h \<Rightarrow> h
      | None \<Rightarrow> [])"

definition fragment_topic :: "EventFragment \<Rightarrow> string" where
  "fragment_topic f = signature_hash (event_signature f)"

definition events_getEventTopic :: "EventFragment list \<Rightarrow> string \<Rightarrow> string" where
  "events_getEventTopic events name =
     (case find (\<lambda>f. ef_name f = name) events of
        Some f \<Rightarrow> fragment_topic f
      | None \<Rightarrow> [])"

definition hex_digit :: "char \<Rightarrow> int option" where
  "hex_digit c =
     map_of (zip ''0123456789abcdefABCDEF''
       [0, 1, 2, 3, 4, 5, 6, 7, 8, 9, 10, 11, 12, 13, 14, 15, 10, 11, 12, 13, 14, 15]) c"

fun hex_value :: "int \<Rightarrow> string \<Rightarrow> int option" where
  "hex_value n [] = Some n"
| "hex_value n (c # cs) =
     (case hex_digit c of
        None \<Rightarrow> None
      | Some d \<Rightarrow> hex_value (16 * n + d) cs)"

text \<open>The hex digits of a \<^verbatim>\<open>0x\<close>-prefixed string, if it is one.\<close>

definition hex_body :: "string \<Rightarrow> string option" where
  "hex_body s =
     (if take 2 s = ''0x'' \<and> hex_value 0 (drop 2 s) \<noteq> None then Some (drop 2 s) else None)"

text \<open>A topic is one 32-byte word: 64 hex digits.\<close>

definition topic_word :: "string \<Rightarrow> string option" where
  "topic_word s =
     (case hex_body s of
        None \<Rightarrow> None
      | Some h \<Rightarrow> if length h = 64 then Some h else None)"

text \<open>The whole 32-byte words of a hex string; a shorter rest cannot be read as a word.\<close>

fun words64 :: "nat \<Rightarrow> string \<Rightarrow> string list" where
  "words64 0 s = []"
| "words64 (Suc k) s = (if length s < 64 then [] else take 64 s # words64 k (drop 64 s))"

definition data_words :: "string \<Rightarrow> string list option" where
  "data_words s =
     (case hex_body s of
        None \<Rightarrow> None
      | Some h \<Rightarrow> Some (words64 (length h) h))"

text \<open>
  One word decoded at a type. An address word with a non-zero byte among its first
  twelve is out of range: the library keeps that error in place of the value and throws
  it when the argument is read. The library returns an address in checksum casing, which
  differs from the digits of the word in letter case only.
\<close>

fun decode_word :: "abi_type \<Rightarrow> string \<Rightarrow> js_error + js_value" where
  "decode_word address_t w =
     (if take 24 w = replicate 24 CHR ''0'' then Inr (JString (''0x'' @ drop 24 w))
      else Inl (Error ''Error: value out of range''))"
| "decode_word uint256_t w =
     (case hex_value 0 w of
        None \<Rightarrow> Inl (Error ''Error: invalid BigNumber string'')
      | Some n \<Rightarrow> Inr (JBigNumber n))"
| "decode_word bool_t w =
     (case hex_value 0 w of
        None \<Rightarrow> Inl (Error ''Error: invalid BigNumber string'')
      | Some n \<Rightarrow> Inr (JBoolean (n \<noteq> 0)))"

text \<open>Reading one word per type; running out of words is thrown at once.\<close>

fun abi_decode :: "abi_type list \<Rightarrow> string list \<Rightarrow> js_error + (js_error + js_value) list" where
  "abi_decode [] ws = Inr []"
| "abi_decode (t # ts) [] = Inl (Error ''Error: data out-of-bounds'')"
| "abi_decode (t # ts) (w # ws) =
     (case abi_decode ts ws of
        Inl e \<Rightarrow> Inl e
      | Inr vs \<Rightarrow> Inr (decode_word t w # vs))"

definition args_of :: "(string \<times> (js_error + js_value)) list \<Rightarrow> string \<Rightarrow> js_error + js_value" where
  "args_of named name =
     (case map_of named name of
        None \<Rightarrow> Inr JUndefined
      | Some r \<Rightarrow> r)"

text \<open>
  \<^verbatim>\<open>Interface.parseLog\<close> for events whose parameters are static: the event is found
  by \<^verbatim>\<open>topics[0]\<close>, the indexed parameters are read from the other topics, the others
  from the data.
\<close>

definition events_parseLog :: "EventFragment list \<Rightarrow> Log \<Rightarrow> js_error + LogDescription" where
  "events_parseLog events log =
     (case log_topics log of
        [] \<Rightarrow> Inl (Error ''Error: no matching event'')
      | topic0 # rest \<Rightarrow>
          (case find (\<lambda>f. fragment_topic f = string_toLowerCase topic0) events of
             None \<Rightarrow> Inl (Error ''Error: no matching event'')
           | Some f \<Rightarrow>
          (case those (map topic_word rest) of
             None \<Rightarrow> Inl (Error ''Error: invalid arrayify value'')
           | Some topic_words \<Rightarrow>
          (case data_words (log_data log) of
             None \<Rightarrow> Inl (Error ''Error: invalid arrayify value'')
           | Some words \<Rightarrow>
          (let indexed = filter pt_indexed (ef_inputs f);
               nonIndexed = filter (\<lambda>p. \<not> pt_indexed p) (ef_inputs f)
           in case abi_decode (map pt_type indexed) topic_words of
                Inl e \<Rightarrow> Inl e
              | Inr resultIndexed \<Rightarrow>
             (case abi_decode (map pt_type nonIndexed) words of
                Inl e \<Rightarrow> Inl e
              | Inr resultNonIndexed \<Rightarrow>
                  Inr \<lparr>ld_name = ef_name f,
                       ld_args = args_of (zip (map pt_name indexed) resultIndexed @
                                          zip (map pt_name nonIndexed) resultNonIndexed)\<rparr>))))))"

definition events_Interface :: "EventFragment list \<Rightarrow> Interface" where
  "events_Interface events =
     \<lparr>getEventTopic = events_getEventTopic events, parseLog = events_parseLog events\<rparr>"

text \<open>
  Modelled from the spec: \<^verbatim>\<open>parseEvent\<close> (\<^verbatim>\<open>@/events/parser\<close>, not among the
  sources). The spec (4.1): \<^emph>\<open>Input: a raw log record plus enclosing block/transaction
  metadata. Output: BaseEventParams. Fails with MalformedLogError if required metadata
  (block hash, tx hash, log index) is absent.\<close> The timestamp comes from the enclosing
  block and is a parameter.
\<close>

definition parseEvent_spec :: "(Log \<Rightarrow> int) \<Rightarrow> Log \<Rightarrow> js_error + BaseEventParams" where
  "parseEvent_spec timestamp log =
     (case log_blockHash log of
        None \<Rightarrow> Inl (Error ''MalformedLogError'')
      | Some blockHash \<Rightarrow>
     (case log_transactionHash log of
        None \<Rightarrow> Inl (Error ''MalformedLogError'')
      | Some txHash \<Rightarrow>
     (case log_logIndex log of
        None \<Rightarrow> Inl (Error ''MalformedLogError'')
      | Some logIndex \<Rightarrow>
          Inr \<lparr>bp_address = log_address log, bp_block = log_blockNumber log,
               bp_blockHash = blockHash, bp_txHash = txHash,
               bp_txIndex = log_transactionIndex log, bp_logIndex = logIndex,
               bp_timestamp = timestamp log\<rparr>)))"

definition erc721_env :: "bool \<Rightarrow> env" where
  "erc721_env accept =
     \<lparr>parseEvent = parseEvent_spec (\<lambda>_. 1643809164),
      abi = events_Interface abi_events,
      nonStandardAbi = events_Interface nonStandardAbi_events,
      acceptOrders = accept\<rparr>"

text \<open>Sample logs: a block of one contract with five logs.\<close>

definition collection :: string where
  "collection = ''0xbc4ca0eda7647a8ab7c2061c2e118a18a936f13d''"

definition sample_log :: "int \<Rightarrow> string list \<Rightarrow> string \<Rightarrow> Log" where
  "sample_log i topics data =
     \<lparr>log_blockNumber = 14000000,
      log_blockHash = Some ''0xb10c'',
      log_transactionIndex = 7,
      log_removed = False,
      log_address = collection,
      log_data = data,
      log_topics = topics,
      log_transactionHash = Some ''0x7a'',
      log_logIndex = Some i\<rparr>"

text \<open>The base parameters of the sample log with index \<open>i\<close>.\<close>

definition sample_baseParams :: "int \<Rightarrow> BaseEventParams" where
  "sample_baseParams i =
     \<lparr>bp_address = collection, bp_block = 14000000, bp_blockHash = ''0xb10c'',
      bp_txHash = ''0x7a'', bp_txIndex = 7, bp_logIndex = i, bp_timestamp = 1643809164\<rparr>"

definition alice :: string where
  "alice = ''0xaaaaaaaaaaaaaaaaaaaaaaaaaaaaaaaaaaaaaaaa''"

definition bob :: string where
  "bob = ''0xbbbbbbbbbbbbbbbbbbbbbbbbbbbbbbbbbbbbbbbb''"

definition Transfer_topic :: string where
  "Transfer_topic = ''0xddf252ad1be2c89b69c2b068fc378daa952ba7f163c4a11628f55a4df523b3ef''"

definition ApprovalForAll_topic :: string where
  "ApprovalForAll_topic = ''0x17307eab39ab6107e8899845ad3d59bd9653f200f220920489ca2b5937696c31''"

text \<open>The topic of the single-token \<^verbatim>\<open>Approval\<close> event, which the adapter does not declare.\<close>

definition Approval_topic :: string where
  "Approval_topic = ''0x8c5be1e5ebec7d5bd14f71427d1e84f3dd0314c0f7b2291e5b200ac8c7c3b925''"

definition alice_word :: string where
  "alice_word = ''0x000000000000000000000000AAAAAAAAAAAAAAAAAAAAAAAAAAAAAAAAAAAAAAAA''"

definition bob_word :: string where
  "bob_word = ''0x000000000000000000000000bbbbbbbbbbbbbbbbbbbbbbbbbbbbbbbbbbbbbbbb''"

definition token_word :: string where
  "token_word = ''0x000000000000000000000000000000000000000000000000000000000000002a''"

definition true_word :: string where
  "true_word = ''0x0000000000000000000000000000000000000000000000000000000000000001''"

text \<open>A standard transfer: three indexed parameters, no data.\<close>

definition transfer_log :: Log where
  "transfer_log = sample_log 0 [Transfer_topic, alice_word, bob_word, token_word] ''0x''"

text \<open>The same transfer from an old contract: the token id is in the data.\<close>

definition old_transfer_log :: Log where
  "old_transfer_log = sample_log 1 [Transfer_topic, alice_word, bob_word] token_word"

definition approval_log :: Log where
  "approval_log = sample_log 2 [ApprovalForAll_topic, alice_word, bob_word] true_word"

text \<open>A log of an event the adapter has no case for.\<close>

definition other_log :: Log where
  "other_log = sample_log 3 [Approval_topic, alice_word, bob_word, token_word] ''0x''"

text \<open>
  A transfer log of a contract that indexes none of the three parameters: all of them
  are in the data, and neither interface finds the topics it reads.
\<close>

definition bad_log :: Log where
  "bad_log =
     sample_log 4 [Transfer_topic]
       (''0x'' @ drop 2 alice_word @ drop 2 bob_word @ drop 2 token_word)"

text \<open>
  Sample rows: the events of the first and third sample log, a transfer of another
  block, and a cancellation.
\<close>

definition sample_transfer :: NftTransferEvent where
  "sample_transfer =
     \<lparr>t_tokenId = ''42'', t_from = alice, t_to = bob, t_amount = ''1'',
      t_baseParams = sample_baseParams 0\<rparr>"

definition sample_approval :: NftApprovalEvent where
  "sample_approval =
     \<lparr>a_owner = alice, a_operator = bob, a_approved = JBoolean True,
      a_baseParams = sample_baseParams 2\<rparr>"

definition other_block_transfer :: NftTransferEvent where
  "other_block_transfer =
     \<lparr>t_tokenId = ''7'', t_from = bob, t_to = alice, t_amount = ''1'',
      t_baseParams = (sample_baseParams 0)\<lparr>bp_block := 14000001, bp_blockHash := ''0xb10d''\<rparr>\<rparr>"

definition sample_cancel :: "string cancel_events_row" where
  "sample_cancel =
     \<lparr>ce_address = collection, ce_block = 14000000, ce_block_hash = ''0xb10c'',
      ce_tx_hash = ''0x7a'', ce_tx_index = 7, ce_log_index = 6, ce_timestamp = 1643809164,
      ce_order_kind = ''wyvern-v2'', ce_order_id = ''0x01''\<rparr>"

text \<open>The same cancellation stamped in the year 2100: past the range of its column.\<close>

definition late_cancel :: "string cancel_events_row" where
  "late_cancel = sample_cancel\<lparr>ce_log_index := 8, ce_timestamp := 4102444800\<rparr>"

definition sample_world :: world where
  "sample_world =
     \<lparr>nft_approval_events = [sample_approval],
      nft_transfer_events = [sample_transfer, other_block_transfer],
      orders_update_by_maker = [], logger_errors = []\<rparr>"

definition empty_world :: world where
  "empty_world =
     \<lparr>nft_approval_events = [], nft_transfer_events = [],
      orders_update_by_maker = [], logger_errors = []\<rparr>"

section \<open>The loop body and the loop\<close>

text \<open>A throwing step hands back the arrays it was given, and whether a log throws does
  not depend on what was accumulated before it.\<close>

lemma transferCase_throws:
  "transferCase e log bp c a = (Some err, a') \<Longrightarrow> a' = a"
  by (auto simp: transferCase_def Let_def split: sum.splits)

lemma approvalForAllCase_throws:
  "approvalForAllCase e log bp c a = (Some err, a') \<Longrightarrow> a' = a"
  by (auto simp: approvalForAllCase_def Let_def split: sum.splits)

lemma tryBody_throws:
  "tryBody e log a = (Some err, a') \<Longrightarrow> a' = a"
  by (auto simp: tryBody_def Let_def split: sum.splits option.splits if_splits
           dest: transferCase_throws approvalForAllCase_throws)

lemma transferCase_fst:
  "fst (transferCase e log bp c a) = fst (transferCase e log bp c b)"
  by (auto simp: transferCase_def Let_def split: sum.splits)

lemma approvalForAllCase_fst:
  "fst (approvalForAllCase e log bp c a) = fst (approvalForAllCase e log bp c b)"
  by (auto simp: approvalForAllCase_def Let_def split: sum.splits)

lemma tryBody_fst:
  "fst (tryBody e log a) = fst (tryBody e log b)"
  by (auto simp: tryBody_def Let_def transferCase_fst [of e log _ _ a b]
        approvalForAllCase_fst [of e log _ _ a b] split: sum.splits option.splits)

lemma malformed_iff:
  "malformed e log \<longleftrightarrow> (\<exists>err. tryBody e log a = (Some err, a))"
proof -
  have "fst (tryBody e log a) = fst (tryBody e log empty_acc)"
    by (rule tryBody_fst)
  then show ?thesis
    unfolding malformed_def
    by (cases "tryBody e log a") (auto dest: tryBody_throws)
qed

lemma forLoop_append:
  "forLoop e (xs @ ys) s = forLoop e ys (forLoop e xs s)"
  by (induction xs arbitrary: s) auto


lemma processLog_malformed:
  assumes "malformed e log"
  shows "\<exists>err. fst (tryBody e log empty_acc) = Some err \<and>
           (\<forall>a lg. processLog e log (a, lg) =
              (a, lg @ [(''erc721_callback'', could_not_parse err)]))"
proof -
  from assms obtain err where err: "tryBody e log empty_acc = (Some err, empty_acc)"
    using malformed_iff [of e log empty_acc] by blast
  have "processLog e log (a, lg) = (a, lg @ [(''erc721_callback'', could_not_parse err)])"
    for a lg
  proof -
    have "fst (tryBody e log a) = Some err"
      using tryBody_fst [of e log a empty_acc] err by simp
    then have "tryBody e log a = (Some err, a)"
      by (cases "tryBody e log a") (auto dest: tryBody_throws)
    then show ?thesis
      by (simp add: processLog_def logger_error_def)
  qed
  with err show ?thesis by auto
qed

lemma processLog_wellformed:
  assumes "\<not> malformed e log"
  shows "processLog e log (a, lg) = (snd (tryBody e log a), lg)"
proof -
  have "fst (tryBody e log a) = None"
    using assms tryBody_fst [of e log a empty_acc] by (simp add: malformed_def)
  then show ?thesis
    by (cases "tryBody e log a") (simp add: processLog_def)
qed

lemma forLoop_wellformed:
  "\<forall>l\<in>set ls. \<not> malformed e l \<Longrightarrow>
     forLoop e ls (a, lg) = (fst (forLoop e ls (a, lg')), lg)"
proof (induction ls arbitrary: a)
  case Nil
  then show ?case by simp
next
  case (Cons l ls)
  then show ?case
    by (simp add: processLog_wellformed)
qed

lemma transferCase_count:
  "transferCase e log bp c a = (None, a') \<Longrightarrow> event_count a' = Suc (event_count a)"
  by (auto simp: transferCase_def Let_def event_count_def split: sum.splits)

lemma approvalForAllCase_count:
  "approvalForAllCase e log bp c a = (None, a') \<Longrightarrow> event_count a' = Suc (event_count a)"
  by (auto simp: approvalForAllCase_def Let_def event_count_def split: sum.splits)

lemma tryBody_count:
  assumes "tryBody e log a = (None, a')"
  shows "event_count a' = event_count a + (if recognised e log then 1 else 0)"
  using assms
  by (auto simp: tryBody_def Let_def recognised_def
           split: sum.splits option.splits if_splits
           dest: transferCase_count approvalForAllCase_count)

lemma forLoop_count:
  "\<forall>l\<in>set ls. \<not> malformed e l \<Longrightarrow>
     event_count (fst (forLoop e ls (a, lg))) =
       event_count a + length (filter (recognised e) ls)"
proof (induction ls arbitrary: a)
  case Nil
  then show ?case by simp
next
  case (Cons l ls)
  from Cons.prems have wf: "\<not> malformed e l" by simp
  have "fst (tryBody e l a) = None"
    using wf tryBody_fst [of e l a empty_acc] by (simp add: malformed_def)
  then have tb: "tryBody e l a = (None, snd (tryBody e l a))"
    by (cases "tryBody e l a") simp
  show ?case
    using Cons.IH [of "snd (tryBody e l a)"] Cons.prems tryBody_count [OF tb]
    by (simp add: processLog_wellformed [OF wf])
qed

lemma forLoop_one_malformed:
  assumes bad: "malformed e bad"
    and rest: "\<forall>l\<in>set (xs @ ys). \<not> malformed e l"
  shows "\<exists>err. fst (tryBody e bad empty_acc) = Some err \<and>
           forLoop e (xs @ bad # ys) (a, lg) =
             (fst (forLoop e (xs @ ys) (a, lg)),
              lg @ [(''erc721_callback'', could_not_parse err)])"
proof -
  from processLog_malformed [OF bad] obtain err where
    err: "fst (tryBody e bad empty_acc) = Some err"
    and step: "\<And>a lg. processLog e bad (a, lg) =
                 (a, lg @ [(''erc721_callback'', could_not_parse err)])"
    by blast
  let ?line = "(''erc721_callback'', could_not_parse err)"
  from rest have xs: "\<forall>l\<in>set xs. \<not> malformed e l" and ys: "\<forall>l\<in>set ys. \<not> malformed e l"
    by auto
  obtain a1 where a1: "forLoop e xs (a, lg) = (a1, lg)"
    using forLoop_wellformed [OF xs, of a lg lg] by simp
  have "forLoop e (xs @ bad # ys) (a, lg) = forLoop e ys (a1, lg @ [?line])"
    by (simp add: forLoop_append a1 step)
  also have "\<dots> = (fst (forLoop e ys (a1, lg)), lg @ [?line])"
    using forLoop_wellformed [OF ys, of a1 "lg @ [?line]" lg] by simp
  also have "fst (forLoop e ys (a1, lg)) = fst (forLoop e (xs @ ys) (a, lg))"
    by (simp add: forLoop_append a1)
  finally show ?thesis using err by blast
qed

lemma processLog_fst:
  "fst (processLog e log (a, lg)) = fst (processLog e log (a, lg'))"
  by (cases "tryBody e log a") (auto simp: processLog_def split: option.splits)

lemma forLoop_fst:
  "fst (forLoop e logs (a, lg)) = fst (forLoop e logs (a, lg'))"
proof (induction logs arbitrary: a lg lg')
  case Nil
  then show ?case by simp
next
  case (Cons l ls)
  obtain a1 l1 where p1: "processLog e l (a, lg) = (a1, l1)"
    by (cases "processLog e l (a, lg)")
  obtain a2 l2 where p2: "processLog e l (a, lg') = (a2, l2)"
    by (cases "processLog e l (a, lg')")
  from processLog_fst [of e l a lg lg'] p1 p2 have "a1 = a2" by simp
  with Cons.IH [of a1 l1 l2] p1 p2 show ?case by simp
qed

lemma forLoop_decoded:
  "fst (forLoop e logs (empty_acc, lg)) = decoded e logs"
  unfolding decoded_def by (rule forLoop_fst)

lemma syncCallback_queue:
  "orders_update_by_maker (syncCallback e logs backfill w) =
     (if \<not> truthy backfill \<and> acceptOrders e
      then orders_update_by_maker w @ [makerInfos (decoded e logs)]
      else orders_update_by_maker w)"
  by (simp add: syncCallback_def Let_def addToOrdersUpdateByMakerQueue_def
        addNftTransferEvents_def addNftApprovalEvents_def forLoop_decoded)

lemma transferCase_None:
  assumes "transferCase e log bp c a = (None, a')"
  shows "\<exists>d from to tokenId.
           parseTransferLog e log = Inr d \<and>
           args_toLowerCase d ''from'' = Inr from \<and>
           args_toLowerCase d ''to'' = Inr to \<and>
           args_toString d ''tokenId'' = Inr tokenId \<and>
           a' = a\<lparr>transferEvents := transferEvents a @
                    [\<lparr>t_tokenId = tokenId, t_from = from, t_to = to, t_amount = ''1'',
                      t_baseParams = bp\<rparr>],
                  makerInfos := makerInfos a @
                    [\<lparr>mi_context = c, mi_side = ''sell'', mi_maker = from,
                      mi_contract = bp_address bp, mi_tokenId = Some tokenId,
                      mi_operator = None, mi_approved = None, mi_checkApproval = None\<rparr>,
                     \<lparr>mi_context = c, mi_side = ''sell'', mi_maker = to,
                      mi_contract = bp_address bp, mi_tokenId = Some tokenId,
                      mi_operator = None, mi_approved = None, mi_checkApproval = None\<rparr>]\<rparr>"
  using assms
  by (auto simp: transferCase_def Let_def split: sum.splits)

lemma approvalForAllCase_None:
  assumes "approvalForAllCase e log bp c a = (None, a')"
  shows "\<exists>d owner operator approved.
           parseLog (abi e) log = Inr d \<and>
           args_toLowerCase d ''owner'' = Inr owner \<and>
           args_toLowerCase d ''operator'' = Inr operator \<and>
           ld_args d ''approved'' = Inr approved \<and>
           a' = a\<lparr>approvalEvents := approvalEvents a @
                    [\<lparr>a_owner = owner, a_operator = operator, a_approved = approved,
                      a_baseParams = bp\<rparr>],
                  makerInfos := makerInfos a @
                    [\<lparr>mi_context = c, mi_side = ''sell'', mi_maker = owner,
                      mi_contract = bp_address bp, mi_tokenId = None,
                      mi_operator = Some operator, mi_approved = Some approved,
                      mi_checkApproval = Some True\<rparr>]\<rparr>"
  using assms
  by (auto simp: approvalForAllCase_def Let_def split: sum.splits)

lemma tryBody_Transfer:
  assumes "topics0 log = Some (getEventTopic (abi e) ''Transfer'')"
    and "parseEvent e log = Inr bp"
  shows "tryBody e log a = transferCase e log bp (context_of bp) a"
  using assms by (simp add: tryBody_def)

lemma tryBody_ApprovalForAll:
  assumes "topics0 log = Some (getEventTopic (abi e) ''ApprovalForAll'')"
    and "getEventTopic (abi e) ''ApprovalForAll'' \<noteq> getEventTopic (abi e) ''Transfer''"
    and "parseEvent e log = Inr bp"
  shows "tryBody e log a = approvalForAllCase e log bp (context_of bp) a"
  using assms by (simp add: tryBody_def)

lemma tryBody_None_parseEvent:
  "tryBody e log a = (None, a') \<Longrightarrow> \<exists>bp. parseEvent e log = Inr bp"
  by (cases "parseEvent e log") (auto simp: tryBody_def)

lemma tryBody_amount:
  assumes "\<forall>ev\<in>set (transferEvents a). t_amount ev = ''1''"
  shows "\<forall>ev\<in>set (transferEvents (snd (tryBody e log a))). t_amount ev = ''1''"
proof (cases "tryBody e log a")
  case (Pair r a')
  show ?thesis
  proof (cases r)
    case None
    with Pair have ok: "tryBody e log a = (None, a')" by simp
    then obtain bp where bp: "parseEvent e log = Inr bp"
      using tryBody_None_parseEvent by blast
    have "\<forall>ev\<in>set (transferEvents a'). t_amount ev = ''1''"
      using ok assms bp
      by (auto simp: tryBody_def Let_def split: option.splits if_splits
               dest!: transferCase_None approvalForAllCase_None)
    with Pair show ?thesis by simp
  next
    case (Some err)
    with Pair have "a' = a" using tryBody_throws by blast
    with Pair assms show ?thesis by simp
  qed
qed

lemma processLog_tryBody:
  "fst (processLog e log (a, lg)) = snd (tryBody e log a)"
  by (cases "tryBody e log a") (auto simp: processLog_def split: option.splits)

lemma forLoop_amount:
  "\<forall>ev\<in>set (transferEvents a). t_amount ev = ''1'' \<Longrightarrow>
     \<forall>ev\<in>set (transferEvents (fst (forLoop e logs (a, lg)))). t_amount ev = ''1''"
proof (induction logs arbitrary: a lg)
  case Nil
  then show ?case by simp
next
  case (Cons l ls)
  obtain a1 l1 where p: "processLog e l (a, lg) = (a1, l1)"
    by (cases "processLog e l (a, lg)")
  with processLog_tryBody [of e l a lg] have "a1 = snd (tryBody e l a)" by simp
  with tryBody_amount [OF Cons.prems, of e l]
  have "\<forall>ev\<in>set (transferEvents a1). t_amount ev = ''1''" by simp
  from Cons.IH [OF this, of l1] p show ?case by simp
qed

lemma tryBody_unrecognised:
  assumes "parseEvent e log = Inr bp" and "\<not> recognised e log"
  shows "tryBody e log a = (None, a)"
  using assms
  by (auto simp: tryBody_def Let_def recognised_def split: option.splits)

lemma processLog_unrecognised:
  assumes "parseEvent e log = Inr bp" and "\<not> recognised e log"
  shows "processLog e log s = s"
  using tryBody_unrecognised [OF assms, of "fst s"]
  by (simp add: processLog_def)

lemma forLoop_unrecognised:
  assumes "parseEvent e log = Inr bp" and "\<not> recognised e log"
  shows "forLoop e (xs @ log # ys) s = forLoop e (xs @ ys) s"
  by (simp add: forLoop_append processLog_unrecognised [OF assms])

lemma add_row_keys:
  "set (map pk (add_row pk r rows)) = insert (pk r) (set (map pk rows))"
  by (auto simp: add_row_def)

lemma add_rows_keys:
  "set (map pk (add_rows pk rs rows)) = set (map pk rows) \<union> set (map pk rs)"
  unfolding add_rows_def
proof (induction rs arbitrary: rows)
  case Nil
  then show ?case by simp
next
  case (Cons r rs)
  show ?case
    using Cons.IH [of "add_row pk r rows"] add_row_keys [of pk r rows]
    by auto
qed

lemma syncCallback_tables:
  "nft_approval_events (syncCallback e logs backfill w) =
     add_rows (\<lambda>ev. dedup_key (a_baseParams ev))
       (approvalEvents (decoded e logs)) (nft_approval_events w) \<and>
   nft_transfer_events (syncCallback e logs backfill w) =
     add_rows (\<lambda>ev. dedup_key (t_baseParams ev))
       (transferEvents (decoded e logs)) (nft_transfer_events w)"
  by (simp add: syncCallback_def Let_def addToOrdersUpdateByMakerQueue_def
        addNftTransferEvents_def addNftApprovalEvents_def forLoop_decoded)

lemma syncCallback_one_malformed:
  assumes bad: "malformed e bad"
    and rest: "\<forall>l\<in>set (xs @ ys). \<not> malformed e l"
  shows "\<exists>err. fst (tryBody e bad empty_acc) = Some err \<and>
           syncCallback e (xs @ bad # ys) backfill w =
             (syncCallback e (xs @ ys) backfill w)
               \<lparr>logger_errors :=
                  logger_errors w @ [(''erc721_callback'', could_not_parse err)]\<rparr>"
proof -
  from forLoop_one_malformed [OF bad rest, of empty_acc "logger_errors w"]
  obtain err where err: "fst (tryBody e bad empty_acc) = Some err"
    and loop: "forLoop e (xs @ bad # ys) (empty_acc, logger_errors w) =
             (fst (forLoop e (xs @ ys) (empty_acc, logger_errors w)),
              logger_errors w @ [(''erc721_callback'', could_not_parse err)])"
    by blast
  have "syncCallback e (xs @ bad # ys) backfill w =
             (syncCallback e (xs @ ys) backfill w)
               \<lparr>logger_errors :=
                  logger_errors w @ [(''erc721_callback'', could_not_parse err)]\<rparr>"
    by (simp add: syncCallback_def Let_def loop addToOrdersUpdateByMakerQueue_def
          addNftTransferEvents_def addNftApprovalEvents_def)
  with err show ?thesis by blast
qed

lemma decoded_one_malformed:
  assumes bad: "malformed e bad"
    and rest: "\<forall>l\<in>set (xs @ ys). \<not> malformed e l"
  shows "decoded e (xs @ bad # ys) = decoded e (xs @ ys)"
  using forLoop_one_malformed [OF bad rest, of empty_acc "[]"]
  by (auto simp: decoded_def)

lemma decoded_count:
  assumes "\<forall>l\<in>set ls. \<not> malformed e l"
  shows "event_count (decoded e ls) = length (filter (recognised e) ls)"
  using forLoop_count [OF assms, of empty_acc "[]"]
  by (simp add: decoded_def event_count_def empty_acc_def)

lemma transferCase_decoded:
  assumes "parseTransferLog e log = Inr d"
    and "args_toLowerCase d ''from'' = Inr from"
    and "args_toLowerCase d ''to'' = Inr to"
    and "args_toString d ''tokenId'' = Inr tokenId"
  shows "transferCase e log bp c a =
     (None,
      a\<lparr>transferEvents := transferEvents a @
           [\<lparr>t_tokenId = tokenId, t_from = from, t_to = to, t_amount = ''1'',
             t_baseParams = bp\<rparr>],
         makerInfos := makerInfos a @
           [\<lparr>mi_context = c, mi_side = ''sell'', mi_maker = from,
             mi_contract = bp_address bp, mi_tokenId = Some tokenId,
             mi_operator = None, mi_approved = None, mi_checkApproval = None\<rparr>,
            \<lparr>mi_context = c, mi_side = ''sell'', mi_maker = to,
             mi_contract = bp_address bp, mi_tokenId = Some tokenId,
             mi_operator = None, mi_approved = None, mi_checkApproval = None\<rparr>]\<rparr>)"
  using assms by (simp add: transferCase_def Let_def)

lemma parseTransferLog_primary:
  "parseLog (abi e) log = Inr d \<Longrightarrow> parseTransferLog e log = Inr d"
  by (simp add: parseTransferLog_def)

lemma parseTransferLog_fallback:
  "parseLog (abi e) log = Inl err \<Longrightarrow> parseTransferLog e log = parseLog (nonStandardAbi e) log"
  by (simp add: parseTransferLog_def)

lemma add_row_stored:
  "pk r \<in> set (map pk rows) \<Longrightarrow> add_row pk r rows = rows"
  by (simp add: add_row_def)

lemma add_row_fresh:
  "pk r \<notin> set (map pk rows) \<Longrightarrow> add_row pk r rows = rows @ [r]"
  by (simp add: add_row_def)

lemma add_row_pk_holds:
  "pk_holds pk rows \<Longrightarrow> pk_holds pk (add_row pk r rows)"
  by (cases "pk r \<in> set (map pk rows)")
     (auto simp: pk_holds_def add_row_stored add_row_fresh)

lemma add_rows_pk_holds:
  "pk_holds pk rows \<Longrightarrow> pk_holds pk (add_rows pk rs rows)"
  unfolding add_rows_def
  by (induction rs arbitrary: rows) (auto simp: add_row_pk_holds)

lemma add_rows_stored:
  "set (map pk rs) \<subseteq> set (map pk rows) \<Longrightarrow> add_rows pk rs rows = rows"
  unfolding add_rows_def
  by (induction rs) (auto simp: add_row_stored)

lemma add_rows_twice:
  "add_rows pk rs (add_rows pk rs rows) = add_rows pk rs rows"
  using add_rows_keys [of pk rs rows]
  by (intro add_rows_stored) simp

lemma rows_with_key_distinct:
  "pk_holds pk rows \<Longrightarrow> k \<in> set (map pk rows) \<Longrightarrow> rows_with_key pk k rows = 1"
  unfolding pk_holds_def rows_with_key_def
proof (induction rows)
  case Nil
  then show ?case by simp
next
  case (Cons r rows)
  show ?case
  proof (cases "pk r = k")
    case True
    with Cons.prems have "k \<notin> set (map pk rows)" by auto
    then have "filter (\<lambda>r. pk r = k) rows = []"
      by (auto simp: filter_empty_conv)
    with True show ?thesis by simp
  next
    case False
    with Cons show ?thesis by auto
  qed
qed

lemma add_rows_one_row:
  assumes "pk_holds pk rows"
  shows "rows_with_key pk (pk r) (add_rows pk [r] (add_rows pk [r] rows)) = 1"
proof -
  have "pk_holds pk (add_rows pk [r] (add_rows pk [r] rows))"
    using assms by (simp add: add_rows_pk_holds)
  moreover have "pk r \<in> set (map pk (add_rows pk [r] (add_rows pk [r] rows)))"
    unfolding add_rows_keys by simp
  ultimately show ?thesis by (rule rows_with_key_distinct)
qed

lemma insert_row_again:
  "insert_row r rows = Inr rows' \<Longrightarrow> insert_row r rows' = Inl (unique_violation ''cancel_events_pk'')"
  by (auto simp: insert_row_def split: if_splits)

lemma insert_row_Inr:
  "insert_row r rows = Inr rows' \<Longrightarrow> rows' = add_row cancel_events_pk r rows"
  by (auto simp: insert_row_def add_row_def split: if_splits)

lemma addCancelEvents_one:
  "cancel_events_fits r \<Longrightarrow> addCancelEvents [r] rows = Inr (add_row cancel_events_pk r rows)"
  by (simp add: insert_row_def add_row_def)

lemma addCancelEvents_refused:
  "\<not> cancel_events_fits r \<Longrightarrow>
     insert_row r rows = Inl numeric_value_out_of_range \<and>
     addCancelEvents (r # rs) rows = Inl numeric_value_out_of_range"
  by (simp add: insert_row_def)

lemma add_row_one_row:
  assumes "pk_holds pk rows"
  shows "rows_with_key pk (pk r) (add_row pk r rows) = 1"
proof -
  have "pk_holds pk (add_row pk r rows)"
    using assms by (rule add_row_pk_holds)
  moreover have "pk r \<in> set (map pk (add_row pk r rows))"
    unfolding add_row_keys by simp
  ultimately show ?thesis by (rule rows_with_key_distinct)
qed

lemma add_row_twice:
  "add_row pk r (add_row pk r rows) = add_row pk r rows"
  by (simp add: add_row_def)

lemma tryBody_fields:
  "approvalEvents (snd (tryBody e l a)) =
     approvalEvents a @ approvalEvents (snd (tryBody e l empty_acc)) \<and>
   transferEvents (snd (tryBody e l a)) =
     transferEvents a @ transferEvents (snd (tryBody e l empty_acc)) \<and>
   makerInfos (snd (tryBody e l a)) =
     makerInfos a @ makerInfos (snd (tryBody e l empty_acc))"
  by (auto simp: tryBody_def transferCase_def approvalForAllCase_def Let_def empty_acc_def
           split: sum.splits option.splits)

lemma forLoop_fields:
  "approvalEvents (fst (forLoop e ls (a, lg))) = approvalEvents a @ approvalEvents (decoded e ls) \<and>
   transferEvents (fst (forLoop e ls (a, lg))) = transferEvents a @ transferEvents (decoded e ls) \<and>
   makerInfos (fst (forLoop e ls (a, lg))) = makerInfos a @ makerInfos (decoded e ls)"
proof (induction ls arbitrary: a lg)
  case Nil
  show ?case by (simp add: decoded_def empty_acc_def)
next
  case (Cons l ls)
  obtain a1 l1 where p1: "processLog e l (a, lg) = (a1, l1)"
    by (cases "processLog e l (a, lg)")
  obtain c1 l2 where p2: "processLog e l (empty_acc, []) = (c1, l2)"
    by (cases "processLog e l (empty_acc, [])")
  from p1 processLog_tryBody [of e l a lg] have a1: "a1 = snd (tryBody e l a)" by simp
  from p2 processLog_tryBody [of e l empty_acc "[]"] have c1: "c1 = snd (tryBody e l empty_acc)"
    by simp
  have d: "decoded e (l # ls) = fst (forLoop e ls (c1, l2))"
    by (simp add: decoded_def p2)
  show ?case
    using Cons.IH [of a1 l1] Cons.IH [of c1 l2] tryBody_fields [of e l a]
    by (simp add: p1 d a1 c1)
qed

lemma decoded_at:
  "approvalEvents (decoded e (xs @ l # ys)) =
     approvalEvents (decoded e xs) @ approvalEvents (snd (tryBody e l empty_acc)) @
       approvalEvents (decoded e ys) \<and>
   transferEvents (decoded e (xs @ l # ys)) =
     transferEvents (decoded e xs) @ transferEvents (snd (tryBody e l empty_acc)) @
       transferEvents (decoded e ys) \<and>
   makerInfos (decoded e (xs @ l # ys)) =
     makerInfos (decoded e xs) @ makerInfos (snd (tryBody e l empty_acc)) @
       makerInfos (decoded e ys)"
proof -
  obtain a1 l1 where x: "forLoop e xs (empty_acc, []) = (a1, l1)"
    by (cases "forLoop e xs (empty_acc, [])")
  then have a1: "a1 = decoded e xs" by (simp add: decoded_def)
  obtain a2 l2 where p: "processLog e l (a1, l1) = (a2, l2)"
    by (cases "processLog e l (a1, l1)")
  with processLog_tryBody [of e l a1 l1] have a2: "a2 = snd (tryBody e l a1)" by simp
  have "decoded e (xs @ l # ys) = fst (forLoop e ys (a2, l2))"
    by (simp add: decoded_def forLoop_append x p)
  then show ?thesis
    using forLoop_fields [of e ys a2 l2] tryBody_fields [of e l a1]
    by (simp add: a2 a1)
qed

lemma tryBody_fan_out:
  assumes "tryBody e log a = (None, a')"
  shows "(topics0 log = Some (getEventTopic (abi e) ''Transfer'') \<longrightarrow>
           (\<exists>bp d from to tokenId.
              parseEvent e log = Inr bp \<and>
              parseTransferLog e log = Inr d \<and>
              args_toLowerCase d ''from'' = Inr from \<and>
              args_toLowerCase d ''to'' = Inr to \<and>
              args_toString d ''tokenId'' = Inr tokenId \<and>
              approvalEvents a' = approvalEvents a \<and>
              transferEvents a' = transferEvents a @
                [\<lparr>t_tokenId = tokenId, t_from = from, t_to = to, t_amount = ''1'',
                  t_baseParams = bp\<rparr>] \<and>
              makerInfos a' = makerInfos a @
                [\<lparr>mi_context = context_of bp, mi_side = ''sell'', mi_maker = from,
                  mi_contract = bp_address bp, mi_tokenId = Some tokenId,
                  mi_operator = None, mi_approved = None, mi_checkApproval = None\<rparr>,
                 \<lparr>mi_context = context_of bp, mi_side = ''sell'', mi_maker = to,
                  mi_contract = bp_address bp, mi_tokenId = Some tokenId,
                  mi_operator = None, mi_approved = None, mi_checkApproval = None\<rparr>])) \<and>
         (topics0 log = Some (getEventTopic (abi e) ''ApprovalForAll'') \<and>
          getEventTopic (abi e) ''ApprovalForAll'' \<noteq> getEventTopic (abi e) ''Transfer'' \<longrightarrow>
           (\<exists>bp d owner operator approved.
              parseEvent e log = Inr bp \<and>
              parseLog (abi e) log = Inr d \<and>
              args_toLowerCase d ''owner'' = Inr owner \<and>
              args_toLowerCase d ''operator'' = Inr operator \<and>
              ld_args d ''approved'' = Inr approved \<and>
              transferEvents a' = transferEvents a \<and>
              approvalEvents a' = approvalEvents a @
                [\<lparr>a_owner = owner, a_operator = operator, a_approved = approved,
                  a_baseParams = bp\<rparr>] \<and>
              makerInfos a' = makerInfos a @
                [\<lparr>mi_context = context_of bp, mi_side = ''sell'', mi_maker = owner,
                  mi_contract = bp_address bp, mi_tokenId = None,
                  mi_operator = Some operator, mi_approved = Some approved,
                  mi_checkApproval = Some True\<rparr>]))"
proof (intro conjI impI)
  assume t: "topics0 log = Some (getEventTopic (abi e) ''Transfer'')"
  from assms obtain bp where bp: "parseEvent e log = Inr bp"
    using tryBody_None_parseEvent by blast
  from assms have "transferCase e log bp (context_of bp) a = (None, a')"
    by (simp add: tryBody_Transfer [OF t bp])
  from transferCase_None [OF this] bp
  show "\<exists>bp d from to tokenId.
              parseEvent e log = Inr bp \<and>
              parseTransferLog e log = Inr d \<and>
              args_toLowerCase d ''from'' = Inr from \<and>
              args_toLowerCase d ''to'' = Inr to \<and>
              args_toString d ''tokenId'' = Inr tokenId \<and>
              approvalEvents a' = approvalEvents a \<and>
              transferEvents a' = transferEvents a @
                [\<lparr>t_tokenId = tokenId, t_from = from, t_to = to, t_amount = ''1'',
                  t_baseParams = bp\<rparr>] \<and>
              makerInfos a' = makerInfos a @
                [\<lparr>mi_context = context_of bp, mi_side = ''sell'', mi_maker = from,
                  mi_contract = bp_address bp, mi_tokenId = Some tokenId,
                  mi_operator = None, mi_approved = None, mi_checkApproval = None\<rparr>,
                 \<lparr>mi_context = context_of bp, mi_side = ''sell'', mi_maker = to,
                  mi_contract = bp_address bp, mi_tokenId = Some tokenId,
                  mi_operator = None, mi_approved = None, mi_checkApproval = None\<rparr>]"
    by fastforce
next
  assume "topics0 log = Some (getEventTopic (abi e) ''ApprovalForAll'') \<and>
          getEventTopic (abi e) ''ApprovalForAll'' \<noteq> getEventTopic (abi e) ''Transfer''"
  then have t: "topics0 log = Some (getEventTopic (abi e) ''ApprovalForAll'')"
    and ne: "getEventTopic (abi e) ''ApprovalForAll'' \<noteq> getEventTopic (abi e) ''Transfer''"
    by simp_all
  from assms obtain bp where bp: "parseEvent e log = Inr bp"
    using tryBody_None_parseEvent by blast
  from assms have "approvalForAllCase e log bp (context_of bp) a = (None, a')"
    by (simp add: tryBody_ApprovalForAll [OF t ne bp])
  from approvalForAllCase_None [OF this] bp
  show "\<exists>bp d owner operator approved.
              parseEvent e log = Inr bp \<and>
              parseLog (abi e) log = Inr d \<and>
              args_toLowerCase d ''owner'' = Inr owner \<and>
              args_toLowerCase d ''operator'' = Inr operator \<and>
              ld_args d ''approved'' = Inr approved \<and>
              transferEvents a' = transferEvents a \<and>
              approvalEvents a' = approvalEvents a @
                [\<lparr>a_owner = owner, a_operator = operator, a_approved = approved,
                  a_baseParams = bp\<rparr>] \<and>
              makerInfos a' = makerInfos a @
                [\<lparr>mi_context = context_of bp, mi_side = ''sell'', mi_maker = owner,
                  mi_contract = bp_address bp, mi_tokenId = None,
                  mi_operator = Some operator, mi_approved = Some approved,
                  mi_checkApproval = Some True\<rparr>]"
    by fastforce
qed

lemma add_rows_new:
  "new_keys pk rs rows \<Longrightarrow> add_rows pk rs rows = rows @ rs"
  unfolding add_rows_def new_keys_def
proof (induction rs arbitrary: rows)
  case Nil
  then show ?case by simp
next
  case (Cons r rs)
  from Cons.prems have f: "add_row pk r rows = rows @ [r]"
    by (simp add: add_row_def)
  from Cons.prems have "distinct (map pk rs) \<and> (\<forall>r'\<in>set rs. pk r' \<notin> set (map pk (rows @ [r])))"
    by (auto simp: image_iff)
  from Cons.IH [OF this] f show ?case by simp
qed

lemma parseEvent_spec_metadata:
  "carries_metadata log \<Longrightarrow> \<exists>bp. parseEvent (erc721_env accept) log = Inr bp"
  by (auto simp: carries_metadata_def erc721_env_def parseEvent_spec_def split: option.splits)

lemma syncCallback_unrecognised:
  assumes "parseEvent e log = Inr bp" and "\<not> recognised e log"
  shows "syncCallback e (xs @ log # ys) backfill w = syncCallback e (xs @ ys) backfill w"
  unfolding syncCallback_def forLoop_unrecognised [OF assms] ..

section \<open>Claims\<close>

subsection \<open>C1\<close>

text \<open>
  C1. For every list of logs, \<^verbatim>\<open>syncCallback\<close> hands the accumulated maker infos to the
  maker-update queue if and only if the backfill flag is not set (false, or left out)
  and \<^verbatim>\<open>config.acceptOrders\<close> is enabled; with \<^verbatim>\<open>backfill = true\<close> the queue is
  never called, whatever the logs decode to.
\<close>

theorem syncCallback_enqueue_gate:
  "orders_update_by_maker (syncCallback e logs backfill w) =
     (if \<not> truthy backfill \<and> acceptOrders e
      then orders_update_by_maker w @ [makerInfos (decoded e logs)]
      else orders_update_by_maker w) \<and>
   orders_update_by_maker (syncCallback e logs (Some True) w) = orders_update_by_maker w"
  by (simp add: syncCallback_queue)

text \<open>
  The gate on a standard transfer: live and accepting, backfilling, and live but not
  accepting.
\<close>

theorem syncCallback_enqueue_gate_witness:
  "orders_update_by_maker (syncCallback (erc721_env True) [transfer_log] (Some False) empty_world) =
     [[\<lparr>mi_context = ''0x7a-0'', mi_side = ''sell'',
        mi_maker = alice,
        mi_contract = collection,
        mi_tokenId = Some ''42'', mi_operator = None, mi_approved = None,
        mi_checkApproval = None\<rparr>,
       \<lparr>mi_context = ''0x7a-0'', mi_side = ''sell'',
        mi_maker = bob,
        mi_contract = collection,
        mi_tokenId = Some ''42'', mi_operator = None, mi_approved = None,
        mi_checkApproval = None\<rparr>]] \<and>
   orders_update_by_maker (syncCallback (erc721_env True) [transfer_log] (Some True) empty_world) = [] \<and>
   orders_update_by_maker (syncCallback (erc721_env False) [transfer_log] (Some False) empty_world) = []"
proof -
  have m: "makerInfos (decoded (erc721_env True) [transfer_log]) =
     [\<lparr>mi_context = ''0x7a-0'', mi_side = ''sell'',
        mi_maker = alice,
        mi_contract = collection,
        mi_tokenId = Some ''42'', mi_operator = None, mi_approved = None,
        mi_checkApproval = None\<rparr>,
       \<lparr>mi_context = ''0x7a-0'', mi_side = ''sell'',
        mi_maker = bob,
        mi_contract = collection,
        mi_tokenId = Some ''42'', mi_operator = None, mi_approved = None,
        mi_checkApproval = None\<rparr>]"
    by code_simp
  have a: "acceptOrders (erc721_env True)" "\<not> acceptOrders (erc721_env False)"
    by (simp_all add: erc721_env_def)
  have q: "orders_update_by_maker empty_world = []"
    by (simp add: empty_world_def)
  show ?thesis
    using syncCallback_enqueue_gate [of "erc721_env True" "[transfer_log]" "Some False" empty_world]
      syncCallback_enqueue_gate [of "erc721_env False" "[transfer_log]" "Some False" empty_world]
    by (simp add: m a q)
qed

subsection \<open>C2\<close>

text \<open>
  C2. A log whose \<^verbatim>\<open>try\<close> block completes under the \<^verbatim>\<open>Transfer\<close> label pushes one
  transfer event and exactly two maker infos, the first with the sender as maker, the
  second with the receiver, both with side \<^verbatim>\<open>sell\<close>; under the \<^verbatim>\<open>ApprovalForAll\<close>
  label it pushes one approval event and exactly one maker info, with the owner as maker,
  carrying operator, approved and \<^verbatim>\<open>checkApproval: true\<close>. Wherever the log stands in
  a batch, \<^verbatim>\<open>syncCallback\<close> derives exactly these entries for it: they stand, between
  the entries of the logs before and after it, in the arrays after the loop, in the
  batch handed to the maker-update queue, and the event is in the batch handed to its
  table.
\<close>

theorem fan_out_cardinality:
  assumes "tryBody e log a = (None, a')"
  shows "(topics0 log = Some (getEventTopic (abi e) ''Transfer'') \<longrightarrow>
           (\<exists>bp d from to tokenId ev m1 m2.
              parseEvent e log = Inr bp \<and>
              parseTransferLog e log = Inr d \<and>
              args_toLowerCase d ''from'' = Inr from \<and>
              args_toLowerCase d ''to'' = Inr to \<and>
              args_toString d ''tokenId'' = Inr tokenId \<and>
              ev = \<lparr>t_tokenId = tokenId, t_from = from, t_to = to, t_amount = ''1'',
                    t_baseParams = bp\<rparr> \<and>
              m1 = \<lparr>mi_context = context_of bp, mi_side = ''sell'', mi_maker = from,
                    mi_contract = bp_address bp, mi_tokenId = Some tokenId,
                    mi_operator = None, mi_approved = None, mi_checkApproval = None\<rparr> \<and>
              m2 = \<lparr>mi_context = context_of bp, mi_side = ''sell'', mi_maker = to,
                    mi_contract = bp_address bp, mi_tokenId = Some tokenId,
                    mi_operator = None, mi_approved = None, mi_checkApproval = None\<rparr> \<and>
              approvalEvents a' = approvalEvents a \<and>
              transferEvents a' = transferEvents a @ [ev] \<and>
              makerInfos a' = makerInfos a @ [m1, m2] \<and>
              (\<forall>xs ys backfill w.
                 approvalEvents (decoded e (xs @ log # ys)) =
                   approvalEvents (decoded e xs) @ approvalEvents (decoded e ys) \<and>
                 transferEvents (decoded e (xs @ log # ys)) =
                   transferEvents (decoded e xs) @ [ev] @ transferEvents (decoded e ys) \<and>
                 makerInfos (decoded e (xs @ log # ys)) =
                   makerInfos (decoded e xs) @ [m1, m2] @ makerInfos (decoded e ys) \<and>
                 orders_update_by_maker (syncCallback e (xs @ log # ys) backfill w) =
                   (if \<not> truthy backfill \<and> acceptOrders e
                    then orders_update_by_maker w @
                           [makerInfos (decoded e xs) @ [m1, m2] @ makerInfos (decoded e ys)]
                    else orders_update_by_maker w) \<and>
                 nft_transfer_events (syncCallback e (xs @ log # ys) backfill w) =
                   add_rows (\<lambda>r. dedup_key (t_baseParams r))
                     (transferEvents (decoded e xs) @ [ev] @ transferEvents (decoded e ys))
                     (nft_transfer_events w)))) \<and>
         (topics0 log = Some (getEventTopic (abi e) ''ApprovalForAll'') \<and>
          getEventTopic (abi e) ''ApprovalForAll'' \<noteq> getEventTopic (abi e) ''Transfer'' \<longrightarrow>
           (\<exists>bp d owner operator approved ev m.
              parseEvent e log = Inr bp \<and>
              parseLog (abi e) log = Inr d \<and>
              args_toLowerCase d ''owner'' = Inr owner \<and>
              args_toLowerCase d ''operator'' = Inr operator \<and>
              ld_args d ''approved'' = Inr approved \<and>
              ev = \<lparr>a_owner = owner, a_operator = operator, a_approved = approved,
                    a_baseParams = bp\<rparr> \<and>
              m = \<lparr>mi_context = context_of bp, mi_side = ''sell'', mi_maker = owner,
                   mi_contract = bp_address bp, mi_tokenId = None,
                   mi_operator = Some operator, mi_approved = Some approved,
                   mi_checkApproval = Some True\<rparr> \<and>
              transferEvents a' = transferEvents a \<and>
              approvalEvents a' = approvalEvents a @ [ev] \<and>
              makerInfos a' = makerInfos a @ [m] \<and>
              (\<forall>xs ys backfill w.
                 approvalEvents (decoded e (xs @ log # ys)) =
                   approvalEvents (decoded e xs) @ [ev] @ approvalEvents (decoded e ys) \<and>
                 transferEvents (decoded e (xs @ log # ys)) =
                   transferEvents (decoded e xs) @ transferEvents (decoded e ys) \<and>
                 makerInfos (decoded e (xs @ log # ys)) =
                   makerInfos (decoded e xs) @ [m] @ makerInfos (decoded e ys) \<and>
                 orders_update_by_maker (syncCallback e (xs @ log # ys) backfill w) =
                   (if \<not> truthy backfill \<and> acceptOrders e
                    then orders_update_by_maker w @
                           [makerInfos (decoded e xs) @ [m] @ makerInfos (decoded e ys)]
                    else orders_update_by_maker w) \<and>
                 nft_approval_events (syncCallback e (xs @ log # ys) backfill w) =
                   add_rows (\<lambda>r. dedup_key (a_baseParams r))
                     (approvalEvents (decoded e xs) @ [ev] @ approvalEvents (decoded e ys))
                     (nft_approval_events w))))"
proof (intro conjI impI)
  assume t: "topics0 log = Some (getEventTopic (abi e) ''Transfer'')"
  from tryBody_fan_out [OF assms] t obtain bp d "from" to tokenId where
    f: "parseEvent e log = Inr bp" "parseTransferLog e log = Inr d"
       "args_toLowerCase d ''from'' = Inr from" "args_toLowerCase d ''to'' = Inr to"
       "args_toString d ''tokenId'' = Inr tokenId"
    and ae: "approvalEvents a' = approvalEvents a"
    and te: "transferEvents a' = transferEvents a @
                [\<lparr>t_tokenId = tokenId, t_from = from, t_to = to, t_amount = ''1'',
                  t_baseParams = bp\<rparr>]"
    and mi: "makerInfos a' = makerInfos a @
                [\<lparr>mi_context = context_of bp, mi_side = ''sell'', mi_maker = from,
                  mi_contract = bp_address bp, mi_tokenId = Some tokenId,
                  mi_operator = None, mi_approved = None, mi_checkApproval = None\<rparr>,
                 \<lparr>mi_context = context_of bp, mi_side = ''sell'', mi_maker = to,
                  mi_contract = bp_address bp, mi_tokenId = Some tokenId,
                  mi_operator = None, mi_approved = None, mi_checkApproval = None\<rparr>]"
    by blast
  define ev where "ev = \<lparr>t_tokenId = tokenId, t_from = from, t_to = to, t_amount = ''1'',
                    t_baseParams = bp\<rparr>"
  define m1 where "m1 = \<lparr>mi_context = context_of bp, mi_side = ''sell'', mi_maker = from,
                    mi_contract = bp_address bp, mi_tokenId = Some tokenId,
                    mi_operator = None, mi_approved = None, mi_checkApproval = None\<rparr>"
  define m2 where "m2 = \<lparr>mi_context = context_of bp, mi_side = ''sell'', mi_maker = to,
                    mi_contract = bp_address bp, mi_tokenId = Some tokenId,
                    mi_operator = None, mi_approved = None, mi_checkApproval = None\<rparr>"
  from assms have s: "snd (tryBody e log a) = a'" by simp
  have c: "approvalEvents (snd (tryBody e log empty_acc)) = []"
      "transferEvents (snd (tryBody e log empty_acc)) = [ev]"
      "makerInfos (snd (tryBody e log empty_acc)) = [m1, m2]"
    using tryBody_fields [of e log a] ae te mi
    by (simp_all add: s ev_def m1_def m2_def)
  have batch: "approvalEvents (decoded e (xs @ log # ys)) =
                   approvalEvents (decoded e xs) @ approvalEvents (decoded e ys) \<and>
                 transferEvents (decoded e (xs @ log # ys)) =
                   transferEvents (decoded e xs) @ [ev] @ transferEvents (decoded e ys) \<and>
                 makerInfos (decoded e (xs @ log # ys)) =
                   makerInfos (decoded e xs) @ [m1, m2] @ makerInfos (decoded e ys) \<and>
                 orders_update_by_maker (syncCallback e (xs @ log # ys) backfill w) =
                   (if \<not> truthy backfill \<and> acceptOrders e
                    then orders_update_by_maker w @
                           [makerInfos (decoded e xs) @ [m1, m2] @ makerInfos (decoded e ys)]
                    else orders_update_by_maker w) \<and>
                 nft_transfer_events (syncCallback e (xs @ log # ys) backfill w) =
                   add_rows (\<lambda>r. dedup_key (t_baseParams r))
                     (transferEvents (decoded e xs) @ [ev] @ transferEvents (decoded e ys))
                     (nft_transfer_events w)" for xs ys backfill w
    using decoded_at [of e xs log ys] syncCallback_queue [of e "xs @ log # ys" backfill w]
      syncCallback_tables [of e "xs @ log # ys" backfill w]
    by (simp add: c)
  from f ae te mi batch
  show "\<exists>bp d from to tokenId ev m1 m2.
              parseEvent e log = Inr bp \<and>
              parseTransferLog e log = Inr d \<and>
              args_toLowerCase d ''from'' = Inr from \<and>
              args_toLowerCase d ''to'' = Inr to \<and>
              args_toString d ''tokenId'' = Inr tokenId \<and>
              ev = \<lparr>t_tokenId = tokenId, t_from = from, t_to = to, t_amount = ''1'',
                    t_baseParams = bp\<rparr> \<and>
              m1 = \<lparr>mi_context = context_of bp, mi_side = ''sell'', mi_maker = from,
                    mi_contract = bp_address bp, mi_tokenId = Some tokenId,
                    mi_operator = None, mi_approved = None, mi_checkApproval = None\<rparr> \<and>
              m2 = \<lparr>mi_context = context_of bp, mi_side = ''sell'', mi_maker = to,
                    mi_contract = bp_address bp, mi_tokenId = Some tokenId,
                    mi_operator = None, mi_approved = None, mi_checkApproval = None\<rparr> \<and>
              approvalEvents a' = approvalEvents a \<and>
              transferEvents a' = transferEvents a @ [ev] \<and>
              makerInfos a' = makerInfos a @ [m1, m2] \<and>
              (\<forall>xs ys backfill w.
                 approvalEvents (decoded e (xs @ log # ys)) =
                   approvalEvents (decoded e xs) @ approvalEvents (decoded e ys) \<and>
                 transferEvents (decoded e (xs @ log # ys)) =
                   transferEvents (decoded e xs) @ [ev] @ transferEvents (decoded e ys) \<and>
                 makerInfos (decoded e (xs @ log # ys)) =
                   makerInfos (decoded e xs) @ [m1, m2] @ makerInfos (decoded e ys) \<and>
                 orders_update_by_maker (syncCallback e (xs @ log # ys) backfill w) =
                   (if \<not> truthy backfill \<and> acceptOrders e
                    then orders_update_by_maker w @
                           [makerInfos (decoded e xs) @ [m1, m2] @ makerInfos (decoded e ys)]
                    else orders_update_by_maker w) \<and>
                 nft_transfer_events (syncCallback e (xs @ log # ys) backfill w) =
                   add_rows (\<lambda>r. dedup_key (t_baseParams r))
                     (transferEvents (decoded e xs) @ [ev] @ transferEvents (decoded e ys))
                     (nft_transfer_events w))"
    unfolding ev_def [symmetric] m1_def [symmetric] m2_def [symmetric]
    by (intro exI [of _ bp] exI [of _ d] exI [of _ "from"] exI [of _ to] exI [of _ tokenId]
          exI [of _ ev] exI [of _ m1] exI [of _ m2])
       (simp add: ev_def m1_def m2_def)
next
  assume "topics0 log = Some (getEventTopic (abi e) ''ApprovalForAll'') \<and>
          getEventTopic (abi e) ''ApprovalForAll'' \<noteq> getEventTopic (abi e) ''Transfer''"
  with tryBody_fan_out [OF assms] obtain bp d owner operator approved where
    f: "parseEvent e log = Inr bp" "parseLog (abi e) log = Inr d"
       "args_toLowerCase d ''owner'' = Inr owner" "args_toLowerCase d ''operator'' = Inr operator"
       "ld_args d ''approved'' = Inr approved"
    and te: "transferEvents a' = transferEvents a"
    and ae: "approvalEvents a' = approvalEvents a @
                [\<lparr>a_owner = owner, a_operator = operator, a_approved = approved,
                  a_baseParams = bp\<rparr>]"
    and mi: "makerInfos a' = makerInfos a @
                [\<lparr>mi_context = context_of bp, mi_side = ''sell'', mi_maker = owner,
                  mi_contract = bp_address bp, mi_tokenId = None,
                  mi_operator = Some operator, mi_approved = Some approved,
                  mi_checkApproval = Some True\<rparr>]"
    by blast
  define ev where "ev = \<lparr>a_owner = owner, a_operator = operator, a_approved = approved,
                    a_baseParams = bp\<rparr>"
  define m where "m = \<lparr>mi_context = context_of bp, mi_side = ''sell'', mi_maker = owner,
                   mi_contract = bp_address bp, mi_tokenId = None,
                   mi_operator = Some operator, mi_approved = Some approved,
                   mi_checkApproval = Some True\<rparr>"
  from assms have s: "snd (tryBody e log a) = a'" by simp
  have c: "approvalEvents (snd (tryBody e log empty_acc)) = [ev]"
      "transferEvents (snd (tryBody e log empty_acc)) = []"
      "makerInfos (snd (tryBody e log empty_acc)) = [m]"
    using tryBody_fields [of e log a] ae te mi
    by (simp_all add: s ev_def m_def)
  have batch: "approvalEvents (decoded e (xs @ log # ys)) =
                   approvalEvents (decoded e xs) @ [ev] @ approvalEvents (decoded e ys) \<and>
                 transferEvents (decoded e (xs @ log # ys)) =
                   transferEvents (decoded e xs) @ transferEvents (decoded e ys) \<and>
                 makerInfos (decoded e (xs @ log # ys)) =
                   makerInfos (decoded e xs) @ [m] @ makerInfos (decoded e ys) \<and>
                 orders_update_by_maker (syncCallback e (xs @ log # ys) backfill w) =
                   (if \<not> truthy backfill \<and> acceptOrders e
                    then orders_update_by_maker w @
                           [makerInfos (decoded e xs) @ [m] @ makerInfos (decoded e ys)]
                    else orders_update_by_maker w) \<and>
                 nft_approval_events (syncCallback e (xs @ log # ys) backfill w) =
                   add_rows (\<lambda>r. dedup_key (a_baseParams r))
                     (approvalEvents (decoded e xs) @ [ev] @ approvalEvents (decoded e ys))
                     (nft_approval_events w)" for xs ys backfill w
    using decoded_at [of e xs log ys] syncCallback_queue [of e "xs @ log # ys" backfill w]
      syncCallback_tables [of e "xs @ log # ys" backfill w]
    by (simp add: c)
  from f ae te mi batch
  show "\<exists>bp d owner operator approved ev m.
              parseEvent e log = Inr bp \<and>
              parseLog (abi e) log = Inr d \<and>
              args_toLowerCase d ''owner'' = Inr owner \<and>
              args_toLowerCase d ''operator'' = Inr operator \<and>
              ld_args d ''approved'' = Inr approved \<and>
              ev = \<lparr>a_owner = owner, a_operator = operator, a_approved = approved,
                    a_baseParams = bp\<rparr> \<and>
              m = \<lparr>mi_context = context_of bp, mi_side = ''sell'', mi_maker = owner,
                   mi_contract = bp_address bp, mi_tokenId = None,
                   mi_operator = Some operator, mi_approved = Some approved,
                   mi_checkApproval = Some True\<rparr> \<and>
              transferEvents a' = transferEvents a \<and>
              approvalEvents a' = approvalEvents a @ [ev] \<and>
              makerInfos a' = makerInfos a @ [m] \<and>
              (\<forall>xs ys backfill w.
                 approvalEvents (decoded e (xs @ log # ys)) =
                   approvalEvents (decoded e xs) @ [ev] @ approvalEvents (decoded e ys) \<and>
                 transferEvents (decoded e (xs @ log # ys)) =
                   transferEvents (decoded e xs) @ transferEvents (decoded e ys) \<and>
                 makerInfos (decoded e (xs @ log # ys)) =
                   makerInfos (decoded e xs) @ [m] @ makerInfos (decoded e ys) \<and>
                 orders_update_by_maker (syncCallback e (xs @ log # ys) backfill w) =
                   (if \<not> truthy backfill \<and> acceptOrders e
                    then orders_update_by_maker w @
                           [makerInfos (decoded e xs) @ [m] @ makerInfos (decoded e ys)]
                    else orders_update_by_maker w) \<and>
                 nft_approval_events (syncCallback e (xs @ log # ys) backfill w) =
                   add_rows (\<lambda>r. dedup_key (a_baseParams r))
                     (approvalEvents (decoded e xs) @ [ev] @ approvalEvents (decoded e ys))
                     (nft_approval_events w))"
    by (intro exI [of _ bp] exI [of _ d] exI [of _ owner] exI [of _ operator] exI [of _ approved]
          exI [of _ ev] exI [of _ m])
       (simp add: ev_def m_def)
qed

text \<open>
  An approval, a standard transfer and a log of another event, live: the queue receives
  one batch of three maker infos, each table one event.
\<close>

theorem fan_out_cardinality_witness:
  "tryBody (erc721_env True) transfer_log empty_acc =
     (None,
      \<lparr>approvalEvents = [],
       transferEvents = [sample_transfer],
       makerInfos =
         [\<lparr>mi_context = ''0x7a-0'', mi_side = ''sell'', mi_maker = alice,
           mi_contract = collection, mi_tokenId = Some ''42'', mi_operator = None,
           mi_approved = None, mi_checkApproval = None\<rparr>,
          \<lparr>mi_context = ''0x7a-0'', mi_side = ''sell'', mi_maker = bob,
           mi_contract = collection, mi_tokenId = Some ''42'', mi_operator = None,
           mi_approved = None, mi_checkApproval = None\<rparr>]\<rparr>) \<and>
   tryBody (erc721_env True) approval_log empty_acc =
     (None,
      \<lparr>approvalEvents = [sample_approval],
       transferEvents = [],
       makerInfos =
         [\<lparr>mi_context = ''0x7a-2'', mi_side = ''sell'', mi_maker = alice,
           mi_contract = collection, mi_tokenId = None, mi_operator = Some bob,
           mi_approved = Some (JBoolean True), mi_checkApproval = Some True\<rparr>]\<rparr>) \<and>
   orders_update_by_maker
     (syncCallback (erc721_env True) [approval_log, transfer_log, other_log] (Some False)
        empty_world) =
     [[\<lparr>mi_context = ''0x7a-2'', mi_side = ''sell'', mi_maker = alice,
           mi_contract = collection, mi_tokenId = None, mi_operator = Some bob,
           mi_approved = Some (JBoolean True), mi_checkApproval = Some True\<rparr>,
       \<lparr>mi_context = ''0x7a-0'', mi_side = ''sell'', mi_maker = alice,
           mi_contract = collection, mi_tokenId = Some ''42'', mi_operator = None,
           mi_approved = None, mi_checkApproval = None\<rparr>,
       \<lparr>mi_context = ''0x7a-0'', mi_side = ''sell'', mi_maker = bob,
           mi_contract = collection, mi_tokenId = Some ''42'', mi_operator = None,
           mi_approved = None, mi_checkApproval = None\<rparr>]] \<and>
   nft_transfer_events
     (syncCallback (erc721_env True) [approval_log, transfer_log, other_log] (Some False)
        empty_world) = [sample_transfer] \<and>
   nft_approval_events
     (syncCallback (erc721_env True) [approval_log, transfer_log, other_log] (Some False)
        empty_world) = [sample_approval]"
proof -
  let ?E = "erc721_env True"
  let ?logs = "[approval_log, transfer_log, other_log]"
  let ?m1 = "\<lparr>mi_context = ''0x7a-0'', mi_side = ''sell'', mi_maker = alice,
           mi_contract = collection, mi_tokenId = Some ''42'', mi_operator = None,
           mi_approved = None, mi_checkApproval = None\<rparr>"
  let ?m2 = "\<lparr>mi_context = ''0x7a-0'', mi_side = ''sell'', mi_maker = bob,
           mi_contract = collection, mi_tokenId = Some ''42'', mi_operator = None,
           mi_approved = None, mi_checkApproval = None\<rparr>"
  let ?ma = "\<lparr>mi_context = ''0x7a-2'', mi_side = ''sell'', mi_maker = alice,
           mi_contract = collection, mi_tokenId = None, mi_operator = Some bob,
           mi_approved = Some (JBoolean True), mi_checkApproval = Some True\<rparr>"
  have t1: "tryBody ?E transfer_log empty_acc =
     (None,
      \<lparr>approvalEvents = [],
       transferEvents = [sample_transfer],
       makerInfos =
         [\<lparr>mi_context = ''0x7a-0'', mi_side = ''sell'', mi_maker = alice,
           mi_contract = collection, mi_tokenId = Some ''42'', mi_operator = None,
           mi_approved = None, mi_checkApproval = None\<rparr>,
          \<lparr>mi_context = ''0x7a-0'', mi_side = ''sell'', mi_maker = bob,
           mi_contract = collection, mi_tokenId = Some ''42'', mi_operator = None,
           mi_approved = None, mi_checkApproval = None\<rparr>]\<rparr>)"
    by code_simp
  have t2: "tryBody ?E approval_log empty_acc =
     (None,
      \<lparr>approvalEvents = [sample_approval],
       transferEvents = [],
       makerInfos =
         [\<lparr>mi_context = ''0x7a-2'', mi_side = ''sell'', mi_maker = alice,
           mi_contract = collection, mi_tokenId = None, mi_operator = Some bob,
           mi_approved = Some (JBoolean True), mi_checkApproval = Some True\<rparr>]\<rparr>)"
    by code_simp
  have k1: "topics0 transfer_log = Some (getEventTopic (abi ?E) ''Transfer'')"
    by code_simp
  have k2: "topics0 approval_log = Some (getEventTopic (abi ?E) ''ApprovalForAll'') \<and>
            getEventTopic (abi ?E) ''ApprovalForAll'' \<noteq> getEventTopic (abi ?E) ''Transfer''"
    by code_simp
  have e: "transferEvents empty_acc = []" "approvalEvents empty_acc = []"
      "makerInfos empty_acc = []"
    by (simp_all add: empty_acc_def)
  have w: "orders_update_by_maker empty_world = []" "nft_transfer_events empty_world = []"
      "nft_approval_events empty_world = []"
    by (simp_all add: empty_world_def)
  have g: "acceptOrders ?E"
    by (simp add: erc721_env_def)
  have d1: "makerInfos (decoded ?E [approval_log]) = [?ma]"
      "transferEvents (decoded ?E [approval_log]) = []"
    by code_simp+
  have d2: "makerInfos (decoded ?E [other_log]) = []"
      "transferEvents (decoded ?E [other_log]) = []"
    by code_simp+
  have d3: "approvalEvents (decoded ?E []) = []"
      "approvalEvents (decoded ?E [transfer_log, other_log]) = []"
    by code_simp+
  from fan_out_cardinality [OF t1] k1
  obtain ev m1 m2 where
    ev: "transferEvents (\<lparr>approvalEvents = [],
       transferEvents = [sample_transfer],
       makerInfos =
         [\<lparr>mi_context = ''0x7a-0'', mi_side = ''sell'', mi_maker = alice,
           mi_contract = collection, mi_tokenId = Some ''42'', mi_operator = None,
           mi_approved = None, mi_checkApproval = None\<rparr>,
          \<lparr>mi_context = ''0x7a-0'', mi_side = ''sell'', mi_maker = bob,
           mi_contract = collection, mi_tokenId = Some ''42'', mi_operator = None,
           mi_approved = None, mi_checkApproval = None\<rparr>]\<rparr>) =
           transferEvents empty_acc @ [ev]"
    and ms: "makerInfos (\<lparr>approvalEvents = [],
       transferEvents = [sample_transfer],
       makerInfos =
         [\<lparr>mi_context = ''0x7a-0'', mi_side = ''sell'', mi_maker = alice,
           mi_contract = collection, mi_tokenId = Some ''42'', mi_operator = None,
           mi_approved = None, mi_checkApproval = None\<rparr>,
          \<lparr>mi_context = ''0x7a-0'', mi_side = ''sell'', mi_maker = bob,
           mi_contract = collection, mi_tokenId = Some ''42'', mi_operator = None,
           mi_approved = None, mi_checkApproval = None\<rparr>]\<rparr>) =
           makerInfos empty_acc @ [m1, m2]"
    and b1: "\<And>xs ys backfill w.
        orders_update_by_maker (syncCallback ?E (xs @ transfer_log # ys) backfill w) =
          (if \<not> truthy backfill \<and> acceptOrders ?E
           then orders_update_by_maker w @
                  [makerInfos (decoded ?E xs) @ [m1, m2] @ makerInfos (decoded ?E ys)]
           else orders_update_by_maker w) \<and>
        nft_transfer_events (syncCallback ?E (xs @ transfer_log # ys) backfill w) =
          add_rows (\<lambda>r. dedup_key (t_baseParams r))
            (transferEvents (decoded ?E xs) @ [ev] @ transferEvents (decoded ?E ys))
            (nft_transfer_events w)"
    by blast
  from ev have ev': "ev = sample_transfer" by (simp add: e)
  from ms have ms': "m1 = ?m1" "m2 = ?m2" by (simp_all add: e)
  from b1 [of "[approval_log]" "[other_log]" "Some False" empty_world]
  have q: "orders_update_by_maker (syncCallback ?E ?logs (Some False) empty_world) =
      [[?ma, ?m1, ?m2]]"
    and tt: "nft_transfer_events (syncCallback ?E ?logs (Some False) empty_world) =
      [sample_transfer]"
    by (simp_all add: g d1 d2 w ev' ms' add_rows_def add_row_def)
  from fan_out_cardinality [OF t2] k2
  obtain av where
    av: "approvalEvents (\<lparr>approvalEvents = [sample_approval],
       transferEvents = [],
       makerInfos =
         [\<lparr>mi_context = ''0x7a-2'', mi_side = ''sell'', mi_maker = alice,
           mi_contract = collection, mi_tokenId = None, mi_operator = Some bob,
           mi_approved = Some (JBoolean True), mi_checkApproval = Some True\<rparr>]\<rparr>) =
           approvalEvents empty_acc @ [av]"
    and b2: "\<And>xs ys backfill w.
        nft_approval_events (syncCallback ?E (xs @ approval_log # ys) backfill w) =
          add_rows (\<lambda>r. dedup_key (a_baseParams r))
            (approvalEvents (decoded ?E xs) @ [av] @ approvalEvents (decoded ?E ys))
            (nft_approval_events w)"
    by blast
  from av have av': "av = sample_approval" by (simp add: e)
  from b2 [of "[]" "[transfer_log, other_log]" "Some False" empty_world]
  have ta: "nft_approval_events (syncCallback ?E ?logs (Some False) empty_world) =
      [sample_approval]"
    by (simp add: d3 w av' add_rows_def add_row_def)
  from t1 t2 q tt ta show ?thesis by blast
qed

subsection \<open>C3\<close>

text \<open>
  C3, as stated, fails: in a batch of two logs, a transfer that neither interface can
  parse and a log of an event the adapter has no case for, exactly one log fails to
  parse, yet no event is decoded or stored, where the claim promises one. And when the
  same good transfer is delivered twice beside the bad log, two events are decoded but
  the table keeps one row for their key.
\<close>

theorem one_malformed_log_counterexample:
  "malformed (erc721_env True) bad_log \<and>
   \<not> malformed (erc721_env True) other_log \<and>
   event_count (decoded (erc721_env True) [bad_log, other_log]) = 0 \<and>
   event_count (decoded (erc721_env True) [bad_log, other_log]) \<noteq>
     length [bad_log, other_log] - 1 \<and>
   nft_approval_events (syncCallback (erc721_env True) [bad_log, other_log] None empty_world) = [] \<and>
   nft_transfer_events (syncCallback (erc721_env True) [bad_log, other_log] None empty_world) = [] \<and>
   \<not> malformed (erc721_env True) transfer_log \<and>
   recognised (erc721_env True) transfer_log \<and>
   nft_approval_events
     (syncCallback (erc721_env True) [bad_log, transfer_log, transfer_log] None empty_world) = [] \<and>
   nft_transfer_events
     (syncCallback (erc721_env True) [bad_log, transfer_log, transfer_log] None empty_world) =
     [sample_transfer]"
proof -
  have 1: "malformed (erc721_env True) bad_log"
    by code_simp
  have 2: "\<not> malformed (erc721_env True) other_log"
    by code_simp
  have 0: "event_count (decoded (erc721_env True) [bad_log, other_log]) = 0"
    by code_simp
  have 3: "event_count (decoded (erc721_env True) [bad_log, other_log]) \<noteq>
     length [bad_log, other_log] - 1"
    by code_simp
  have 4: "nft_approval_events (syncCallback (erc721_env True) [bad_log, other_log] None empty_world) = []"
    by code_simp
  have 5: "nft_transfer_events (syncCallback (erc721_env True) [bad_log, other_log] None empty_world) = []"
    by code_simp
  have 6: "\<not> malformed (erc721_env True) transfer_log"
    by code_simp
  have 7: "recognised (erc721_env True) transfer_log"
    by code_simp
  have 8: "nft_approval_events
     (syncCallback (erc721_env True) [bad_log, transfer_log, transfer_log] None empty_world) = []"
    by code_simp
  have 9: "nft_transfer_events
     (syncCallback (erc721_env True) [bad_log, transfer_log, transfer_log] None empty_world) =
     [sample_transfer]"
    by code_simp
  from 1 2 0 3 4 5 6 7 8 9 show ?thesis by blast
qed

text \<open>
  C3, amended. For every batch of N logs in which exactly one log fails to parse,
  \<^verbatim>\<open>syncCallback\<close> hands to each table exactly the events decoded from the remaining
  logs, as if the bad log were not there: one event for each remaining log with a
  \<^verbatim>\<open>Transfer\<close> or \<^verbatim>\<open>ApprovalForAll\<close> topic, so N - 1 events when all of them have
  one. The tables keep one row per dedup key; when the keys of the decoded events are
  pairwise distinct and not yet stored, the tables grow by exactly these rows, N - 1 of
  them. One failure is logged; the bad log does not abort the batch, and nothing is
  thrown out of the loop.
\<close>

theorem one_malformed_log:
  assumes bad: "malformed e bad"
    and rest: "\<forall>l\<in>set (xs @ ys). \<not> malformed e l"
  shows "decoded e (xs @ bad # ys) = decoded e (xs @ ys) \<and>
         event_count (decoded e (xs @ bad # ys)) = length (filter (recognised e) (xs @ ys)) \<and>
         ((\<forall>l\<in>set (xs @ ys). recognised e l) \<longrightarrow>
            event_count (decoded e (xs @ bad # ys)) = length (xs @ bad # ys) - 1) \<and>
         nft_approval_events (syncCallback e (xs @ bad # ys) backfill w) =
           add_rows (\<lambda>r. dedup_key (a_baseParams r)) (approvalEvents (decoded e (xs @ ys)))
             (nft_approval_events w) \<and>
         nft_transfer_events (syncCallback e (xs @ bad # ys) backfill w) =
           add_rows (\<lambda>r. dedup_key (t_baseParams r)) (transferEvents (decoded e (xs @ ys)))
             (nft_transfer_events w) \<and>
         (new_keys (\<lambda>r. dedup_key (a_baseParams r)) (approvalEvents (decoded e (xs @ ys)))
            (nft_approval_events w) \<and>
          new_keys (\<lambda>r. dedup_key (t_baseParams r)) (transferEvents (decoded e (xs @ ys)))
            (nft_transfer_events w) \<longrightarrow>
            nft_approval_events (syncCallback e (xs @ bad # ys) backfill w) =
              nft_approval_events w @ approvalEvents (decoded e (xs @ ys)) \<and>
            nft_transfer_events (syncCallback e (xs @ bad # ys) backfill w) =
              nft_transfer_events w @ transferEvents (decoded e (xs @ ys)) \<and>
            ((\<forall>l\<in>set (xs @ ys). recognised e l) \<longrightarrow>
               length (nft_approval_events (syncCallback e (xs @ bad # ys) backfill w)) +
               length (nft_transfer_events (syncCallback e (xs @ bad # ys) backfill w)) =
                 length (nft_approval_events w) + length (nft_transfer_events w) +
                 (length (xs @ bad # ys) - 1))) \<and>
         (\<exists>err. fst (tryBody e bad empty_acc) = Some err \<and>
            syncCallback e (xs @ bad # ys) backfill w =
              (syncCallback e (xs @ ys) backfill w)
                \<lparr>logger_errors :=
                   logger_errors w @ [(''erc721_callback'', could_not_parse err)]\<rparr>)"
proof -
  note d = decoded_one_malformed [OF bad rest]
  have c: "event_count (decoded e (xs @ bad # ys)) = length (filter (recognised e) (xs @ ys))"
    unfolding d by (rule decoded_count [OF rest])
  have n: "event_count (decoded e (xs @ bad # ys)) = length (xs @ bad # ys) - 1"
    if "\<forall>l\<in>set (xs @ ys). recognised e l"
  proof -
    from that have "filter (recognised e) (xs @ ys) = xs @ ys"
      by (simp only: filter_id_conv)
    then have "length (filter (recognised e) (xs @ ys)) = length (xs @ ys)"
      by (rule arg_cong)
    with c have "event_count (decoded e (xs @ bad # ys)) = length (xs @ ys)"
      by (rule trans)
    then show ?thesis by simp
  qed
  note t = syncCallback_tables [of e "xs @ bad # ys" backfill w, unfolded d]
  from t have ta: "nft_approval_events (syncCallback e (xs @ bad # ys) backfill w) =
           add_rows (\<lambda>r. dedup_key (a_baseParams r)) (approvalEvents (decoded e (xs @ ys)))
             (nft_approval_events w)"
    and tt: "nft_transfer_events (syncCallback e (xs @ bad # ys) backfill w) =
           add_rows (\<lambda>r. dedup_key (t_baseParams r)) (transferEvents (decoded e (xs @ ys)))
             (nft_transfer_events w)"
    by simp_all
  have f: "nft_approval_events (syncCallback e (xs @ bad # ys) backfill w) =
              nft_approval_events w @ approvalEvents (decoded e (xs @ ys)) \<and>
            nft_transfer_events (syncCallback e (xs @ bad # ys) backfill w) =
              nft_transfer_events w @ transferEvents (decoded e (xs @ ys)) \<and>
            ((\<forall>l\<in>set (xs @ ys). recognised e l) \<longrightarrow>
               length (nft_approval_events (syncCallback e (xs @ bad # ys) backfill w)) +
               length (nft_transfer_events (syncCallback e (xs @ bad # ys) backfill w)) =
                 length (nft_approval_events w) + length (nft_transfer_events w) +
                 (length (xs @ bad # ys) - 1))"
    if na: "new_keys (\<lambda>r. dedup_key (a_baseParams r)) (approvalEvents (decoded e (xs @ ys)))
            (nft_approval_events w)"
      and nt: "new_keys (\<lambda>r. dedup_key (t_baseParams r)) (transferEvents (decoded e (xs @ ys)))
            (nft_transfer_events w)"
  proof -
    have a: "nft_approval_events (syncCallback e (xs @ bad # ys) backfill w) =
              nft_approval_events w @ approvalEvents (decoded e (xs @ ys))"
      unfolding ta by (rule add_rows_new [OF na])
    have b: "nft_transfer_events (syncCallback e (xs @ bad # ys) backfill w) =
              nft_transfer_events w @ transferEvents (decoded e (xs @ ys))"
      unfolding tt by (rule add_rows_new [OF nt])
    have "length (nft_approval_events (syncCallback e (xs @ bad # ys) backfill w)) +
               length (nft_transfer_events (syncCallback e (xs @ bad # ys) backfill w)) =
                 length (nft_approval_events w) + length (nft_transfer_events w) +
                 (length (xs @ bad # ys) - 1)"
      if r: "\<forall>l\<in>set (xs @ ys). recognised e l"
      using n [OF r] unfolding a b d event_count_def by simp
    with a b show ?thesis by blast
  qed
  from d c n ta tt f syncCallback_one_malformed [OF bad rest, of backfill w]
  show ?thesis by blast
qed

text \<open>
  Four logs of the sample block, the second unparsable: three events, stored as three
  new rows, and one error line.
\<close>

theorem one_malformed_log_witness:
  "malformed (erc721_env True) bad_log \<and>
   list_all (\<lambda>l. \<not> malformed (erc721_env True) l \<and> recognised (erc721_env True) l)
     [transfer_log, approval_log, old_transfer_log] \<and>
   event_count (decoded (erc721_env True) [transfer_log, bad_log, approval_log, old_transfer_log]) = 3 \<and>
   nft_approval_events
     (syncCallback (erc721_env True) [transfer_log, bad_log, approval_log, old_transfer_log]
        None empty_world) = [sample_approval] \<and>
   nft_transfer_events
     (syncCallback (erc721_env True) [transfer_log, bad_log, approval_log, old_transfer_log]
        None empty_world) =
     [sample_transfer, sample_transfer\<lparr>t_baseParams := sample_baseParams 1\<rparr>] \<and>
   logger_errors
     (syncCallback (erc721_env True) [transfer_log, bad_log, approval_log, old_transfer_log]
        None empty_world) =
     [(''erc721_callback'', ''Could not parse log [object Object]: Error: data out-of-bounds'')]"
proof -
  let ?E = "erc721_env True"
  let ?rest = "[transfer_log] @ [approval_log, old_transfer_log]"
  have b: "malformed ?E bad_log"
    by code_simp
  have r: "list_all (\<lambda>l. \<not> malformed ?E l \<and> recognised ?E l)
     [transfer_log, approval_log, old_transfer_log]"
    by code_simp
  then have r1: "\<forall>l\<in>set ?rest. \<not> malformed ?E l"
    and r2: "\<forall>l\<in>set ?rest. recognised ?E l"
    by simp_all
  have da: "approvalEvents (decoded ?E [transfer_log, approval_log, old_transfer_log]) =
      [sample_approval]"
    by code_simp
  have dt: "transferEvents (decoded ?E [transfer_log, approval_log, old_transfer_log]) =
      [sample_transfer, sample_transfer\<lparr>t_baseParams := sample_baseParams 1\<rparr>]"
    by code_simp
  have na: "new_keys (\<lambda>r. dedup_key (a_baseParams r)) (approvalEvents (decoded ?E ?rest))
      (nft_approval_events empty_world)"
    by code_simp
  have nt: "new_keys (\<lambda>r. dedup_key (t_baseParams r)) (transferEvents (decoded ?E ?rest))
      (nft_transfer_events empty_world)"
    by code_simp
  have w: "nft_approval_events empty_world = []" "nft_transfer_events empty_world = []"
    by (simp_all add: empty_world_def)
  have l: "logger_errors
     (syncCallback ?E [transfer_log, bad_log, approval_log, old_transfer_log] None empty_world) =
     [(''erc721_callback'', ''Could not parse log [object Object]: Error: data out-of-bounds'')]"
    by code_simp
  note th = one_malformed_log [OF b r1, of None empty_world]
  from th r2 have n: "event_count (decoded ?E ([transfer_log] @ bad_log # [approval_log, old_transfer_log])) =
          length ([transfer_log] @ bad_log # [approval_log, old_transfer_log]) - 1"
    by blast
  from th na nt have "nft_approval_events
        (syncCallback ?E ([transfer_log] @ bad_log # [approval_log, old_transfer_log]) None empty_world) =
          nft_approval_events empty_world @ approvalEvents (decoded ?E ?rest)"
    and "nft_transfer_events
        (syncCallback ?E ([transfer_log] @ bad_log # [approval_log, old_transfer_log]) None empty_world) =
          nft_transfer_events empty_world @ transferEvents (decoded ?E ?rest)"
    by blast+
  with b r l n show ?thesis by (simp add: w da dt)
qed

subsection \<open>C4\<close>

text \<open>
  C4. For a log whose \<^verbatim>\<open>topics[0]\<close> is the \<^verbatim>\<open>Transfer\<close> topic the standard interface
  is tried first, and the non-standard one only when that throws. A log that only the
  non-standard interface can parse yields the transfer event (and the two maker infos)
  built from its arguments in the same way, with the same fields \<^verbatim>\<open>from\<close>,
  \<^verbatim>\<open>to\<close>, \<^verbatim>\<open>tokenId\<close> and \<^verbatim>\<open>amount\<close>: a log that the standard interface parses
  to the same argument values gives the same event and maker infos, under its own base
  parameters.
\<close>

theorem fallback_decode:
  assumes topic: "topics0 log = Some (getEventTopic (abi e) ''Transfer'')"
    and base: "parseEvent e log = Inr bp"
    and primary: "parseLog (abi e) log = Inl err"
    and fallback: "parseLog (nonStandardAbi e) log = Inr d"
    and "from": "args_toLowerCase d ''from'' = Inr from"
    and to: "args_toLowerCase d ''to'' = Inr to"
    and tokenId: "args_toString d ''tokenId'' = Inr tokenId"
  shows "parseTransferLog e log = Inr d \<and>
         tryBody e log a =
           (None,
            a\<lparr>transferEvents := transferEvents a @
                 [\<lparr>t_tokenId = tokenId, t_from = from, t_to = to, t_amount = ''1'',
                   t_baseParams = bp\<rparr>],
               makerInfos := makerInfos a @
                 [\<lparr>mi_context = context_of bp, mi_side = ''sell'', mi_maker = from,
                   mi_contract = bp_address bp, mi_tokenId = Some tokenId,
                   mi_operator = None, mi_approved = None, mi_checkApproval = None\<rparr>,
                  \<lparr>mi_context = context_of bp, mi_side = ''sell'', mi_maker = to,
                   mi_contract = bp_address bp, mi_tokenId = Some tokenId,
                   mi_operator = None, mi_approved = None, mi_checkApproval = None\<rparr>]\<rparr>) \<and>
         (\<forall>log' bp' d'.
            topics0 log' = Some (getEventTopic (abi e) ''Transfer'') \<and>
            parseEvent e log' = Inr bp' \<and>
            parseLog (abi e) log' = Inr d' \<and>
            args_toLowerCase d' ''from'' = Inr from \<and>
            args_toLowerCase d' ''to'' = Inr to \<and>
            args_toString d' ''tokenId'' = Inr tokenId \<longrightarrow>
            parseTransferLog e log' = Inr d' \<and>
            tryBody e log' a =
           (None,
            a\<lparr>transferEvents := transferEvents a @
                 [\<lparr>t_tokenId = tokenId, t_from = from, t_to = to, t_amount = ''1'',
                   t_baseParams = bp'\<rparr>],
               makerInfos := makerInfos a @
                 [\<lparr>mi_context = context_of bp', mi_side = ''sell'', mi_maker = from,
                   mi_contract = bp_address bp', mi_tokenId = Some tokenId,
                   mi_operator = None, mi_approved = None, mi_checkApproval = None\<rparr>,
                  \<lparr>mi_context = context_of bp', mi_side = ''sell'', mi_maker = to,
                   mi_contract = bp_address bp', mi_tokenId = Some tokenId,
                   mi_operator = None, mi_approved = None, mi_checkApproval = None\<rparr>]\<rparr>))"
proof -
  have p: "parseTransferLog e log = Inr d"
    using parseTransferLog_fallback [OF primary] fallback by simp
  have t: "tryBody e log a =
           (None,
            a\<lparr>transferEvents := transferEvents a @
                 [\<lparr>t_tokenId = tokenId, t_from = from, t_to = to, t_amount = ''1'',
                   t_baseParams = bp\<rparr>],
               makerInfos := makerInfos a @
                 [\<lparr>mi_context = context_of bp, mi_side = ''sell'', mi_maker = from,
                   mi_contract = bp_address bp, mi_tokenId = Some tokenId,
                   mi_operator = None, mi_approved = None, mi_checkApproval = None\<rparr>,
                  \<lparr>mi_context = context_of bp, mi_side = ''sell'', mi_maker = to,
                   mi_contract = bp_address bp, mi_tokenId = Some tokenId,
                   mi_operator = None, mi_approved = None, mi_checkApproval = None\<rparr>]\<rparr>)"
    unfolding tryBody_Transfer [OF topic base]
    by (rule transferCase_decoded [OF p "from" to tokenId])
  have s: "parseTransferLog e log' = Inr d' \<and>
            tryBody e log' a =
           (None,
            a\<lparr>transferEvents := transferEvents a @
                 [\<lparr>t_tokenId = tokenId, t_from = from, t_to = to, t_amount = ''1'',
                   t_baseParams = bp'\<rparr>],
               makerInfos := makerInfos a @
                 [\<lparr>mi_context = context_of bp', mi_side = ''sell'', mi_maker = from,
                   mi_contract = bp_address bp', mi_tokenId = Some tokenId,
                   mi_operator = None, mi_approved = None, mi_checkApproval = None\<rparr>,
                  \<lparr>mi_context = context_of bp', mi_side = ''sell'', mi_maker = to,
                   mi_contract = bp_address bp', mi_tokenId = Some tokenId,
                   mi_operator = None, mi_approved = None, mi_checkApproval = None\<rparr>]\<rparr>)"
    if h: "topics0 log' = Some (getEventTopic (abi e) ''Transfer'') \<and>
            parseEvent e log' = Inr bp' \<and>
            parseLog (abi e) log' = Inr d' \<and>
            args_toLowerCase d' ''from'' = Inr from \<and>
            args_toLowerCase d' ''to'' = Inr to \<and>
            args_toString d' ''tokenId'' = Inr tokenId" for log' bp' d'
  proof -
    from h have p': "parseTransferLog e log' = Inr d'"
      by (simp add: parseTransferLog_primary)
    from h have "tryBody e log' a = transferCase e log' bp' (context_of bp') a"
      by (simp add: tryBody_Transfer)
    with h p' show ?thesis
      by (simp add: transferCase_decoded [OF p'])
  qed
  from p t s show ?thesis by blast
qed

text \<open>
  The transfer of the old contract: the standard interface runs out of topics, the
  non-standard one reads the token id from the data. The standard log of the same
  transfer gives the same event, under its own base parameters.
\<close>

theorem fallback_decode_witness:
  "isl (parseLog (abi (erc721_env True)) old_transfer_log) \<and>
   \<not> isl (parseLog (nonStandardAbi (erc721_env True)) old_transfer_log) \<and>
   \<not> isl (parseLog (abi (erc721_env True)) transfer_log) \<and>
   snd (tryBody (erc721_env True) old_transfer_log empty_acc) =
     \<lparr>approvalEvents = [],
      transferEvents =
        [\<lparr>t_tokenId = ''42'', t_from = alice, t_to = bob, t_amount = ''1'',
          t_baseParams = sample_baseParams 1\<rparr>],
      makerInfos =
        [\<lparr>mi_context = ''0x7a-1'', mi_side = ''sell'', mi_maker = alice,
          mi_contract = collection, mi_tokenId = Some ''42'', mi_operator = None,
          mi_approved = None, mi_checkApproval = None\<rparr>,
         \<lparr>mi_context = ''0x7a-1'', mi_side = ''sell'', mi_maker = bob,
          mi_contract = collection, mi_tokenId = Some ''42'', mi_operator = None,
          mi_approved = None, mi_checkApproval = None\<rparr>]\<rparr> \<and>
   snd (tryBody (erc721_env True) transfer_log empty_acc) =
     \<lparr>approvalEvents = [],
      transferEvents =
        [\<lparr>t_tokenId = ''42'', t_from = alice, t_to = bob, t_amount = ''1'',
          t_baseParams = sample_baseParams 0\<rparr>],
      makerInfos =
        [\<lparr>mi_context = ''0x7a-0'', mi_side = ''sell'', mi_maker = alice,
          mi_contract = collection, mi_tokenId = Some ''42'', mi_operator = None,
          mi_approved = None, mi_checkApproval = None\<rparr>,
         \<lparr>mi_context = ''0x7a-0'', mi_side = ''sell'', mi_maker = bob,
          mi_contract = collection, mi_tokenId = Some ''42'', mi_operator = None,
          mi_approved = None, mi_checkApproval = None\<rparr>]\<rparr>"
proof -
  let ?E = "erc721_env True"
  let ?d = "projr (parseLog (nonStandardAbi ?E) old_transfer_log)"
  let ?d' = "projr (parseLog (abi ?E) transfer_log)"
  have topic: "topics0 old_transfer_log = Some (getEventTopic (abi ?E) ''Transfer'')"
    by code_simp
  have base: "parseEvent ?E old_transfer_log = Inr (sample_baseParams 1)"
    by code_simp
  have thrown: "isl (parseLog (abi ?E) old_transfer_log)"
    by code_simp
  then have primary: "parseLog (abi ?E) old_transfer_log =
      Inl (projl (parseLog (abi ?E) old_transfer_log))"
    by (cases "parseLog (abi ?E) old_transfer_log") simp_all
  have ok: "\<not> isl (parseLog (nonStandardAbi ?E) old_transfer_log)"
    by code_simp
  then have fallback: "parseLog (nonStandardAbi ?E) old_transfer_log = Inr ?d"
    by (cases "parseLog (nonStandardAbi ?E) old_transfer_log") simp_all
  have "from": "args_toLowerCase ?d ''from'' = Inr alice"
    by code_simp
  have to: "args_toLowerCase ?d ''to'' = Inr bob"
    by code_simp
  have tokenId: "args_toString ?d ''tokenId'' = Inr ''42''"
    by code_simp
  have topic': "topics0 transfer_log = Some (getEventTopic (abi ?E) ''Transfer'')"
    by code_simp
  have base': "parseEvent ?E transfer_log = Inr (sample_baseParams 0)"
    by code_simp
  have ok': "\<not> isl (parseLog (abi ?E) transfer_log)"
    by code_simp
  then have standard: "parseLog (abi ?E) transfer_log = Inr ?d'"
    by (cases "parseLog (abi ?E) transfer_log") simp_all
  have from': "args_toLowerCase ?d' ''from'' = Inr alice"
    by code_simp
  have to': "args_toLowerCase ?d' ''to'' = Inr bob"
    by code_simp
  have tokenId': "args_toString ?d' ''tokenId'' = Inr ''42''"
    by code_simp
  have c: "context_of (sample_baseParams 1) = ''0x7a-1''" "context_of (sample_baseParams 0) = ''0x7a-0''"
    by code_simp+
  have b: "bp_address (sample_baseParams 1) = collection" "bp_address (sample_baseParams 0) = collection"
    by (simp_all add: sample_baseParams_def)
  note r = fallback_decode [OF topic base primary fallback "from" to tokenId, of empty_acc]
  from r have 1: "snd (tryBody ?E old_transfer_log empty_acc) =
     \<lparr>approvalEvents = [],
      transferEvents =
        [\<lparr>t_tokenId = ''42'', t_from = alice, t_to = bob, t_amount = ''1'',
          t_baseParams = sample_baseParams 1\<rparr>],
      makerInfos =
        [\<lparr>mi_context = ''0x7a-1'', mi_side = ''sell'', mi_maker = alice,
          mi_contract = collection, mi_tokenId = Some ''42'', mi_operator = None,
          mi_approved = None, mi_checkApproval = None\<rparr>,
         \<lparr>mi_context = ''0x7a-1'', mi_side = ''sell'', mi_maker = bob,
          mi_contract = collection, mi_tokenId = Some ''42'', mi_operator = None,
          mi_approved = None, mi_checkApproval = None\<rparr>]\<rparr>"
    by (simp add: empty_acc_def c b)
  from r have "\<forall>log' bp' d'.
            topics0 log' = Some (getEventTopic (abi ?E) ''Transfer'') \<and>
            parseEvent ?E log' = Inr bp' \<and>
            parseLog (abi ?E) log' = Inr d' \<and>
            args_toLowerCase d' ''from'' = Inr alice \<and>
            args_toLowerCase d' ''to'' = Inr bob \<and>
            args_toString d' ''tokenId'' = Inr ''42'' \<longrightarrow>
            tryBody ?E log' empty_acc =
           (None,
            empty_acc\<lparr>transferEvents := transferEvents empty_acc @
                 [\<lparr>t_tokenId = ''42'', t_from = alice, t_to = bob, t_amount = ''1'',
                   t_baseParams = bp'\<rparr>],
               makerInfos := makerInfos empty_acc @
                 [\<lparr>mi_context = context_of bp', mi_side = ''sell'', mi_maker = alice,
                   mi_contract = bp_address bp', mi_tokenId = Some ''42'',
                   mi_operator = None, mi_approved = None, mi_checkApproval = None\<rparr>,
                  \<lparr>mi_context = context_of bp', mi_side = ''sell'', mi_maker = bob,
                   mi_contract = bp_address bp', mi_tokenId = Some ''42'',
                   mi_operator = None, mi_approved = None, mi_checkApproval = None\<rparr>]\<rparr>)"
    by blast
  with topic' base' standard from' to' tokenId'
  have "tryBody ?E transfer_log empty_acc =
           (None,
            empty_acc\<lparr>transferEvents := transferEvents empty_acc @
                 [\<lparr>t_tokenId = ''42'', t_from = alice, t_to = bob, t_amount = ''1'',
                   t_baseParams = sample_baseParams 0\<rparr>],
               makerInfos := makerInfos empty_acc @
                 [\<lparr>mi_context = context_of (sample_baseParams 0), mi_side = ''sell'', mi_maker = alice,
                   mi_contract = bp_address (sample_baseParams 0), mi_tokenId = Some ''42'',
                   mi_operator = None, mi_approved = None, mi_checkApproval = None\<rparr>,
                  \<lparr>mi_context = context_of (sample_baseParams 0), mi_side = ''sell'', mi_maker = bob,
                   mi_contract = bp_address (sample_baseParams 0), mi_tokenId = Some ''42'',
                   mi_operator = None, mi_approved = None, mi_checkApproval = None\<rparr>]\<rparr>)"
    by blast
  then have 2: "snd (tryBody ?E transfer_log empty_acc) =
     \<lparr>approvalEvents = [],
      transferEvents =
        [\<lparr>t_tokenId = ''42'', t_from = alice, t_to = bob, t_amount = ''1'',
          t_baseParams = sample_baseParams 0\<rparr>],
      makerInfos =
        [\<lparr>mi_context = ''0x7a-0'', mi_side = ''sell'', mi_maker = alice,
          mi_contract = collection, mi_tokenId = Some ''42'', mi_operator = None,
          mi_approved = None, mi_checkApproval = None\<rparr>,
         \<lparr>mi_context = ''0x7a-0'', mi_side = ''sell'', mi_maker = bob,
          mi_contract = collection, mi_tokenId = Some ''42'', mi_operator = None,
          mi_approved = None, mi_checkApproval = None\<rparr>]\<rparr>"
    by (simp add: empty_acc_def c b)
  from thrown ok ok' 1 2 show ?thesis by blast
qed

subsection \<open>C5\<close>

text \<open>
  C5. Rows are keyed by \<^verbatim>\<open>(block_hash, tx_hash, log_index)\<close>, the primary key that the
  migration declares for \<^verbatim>\<open>cancel_events\<close>. In a table whose key holds, adding the
  same event twice (an event that the table can store: its four integers fit the 32-bit
  columns) leaves exactly one row under its key, and the second add changes nothing; a
  second plain \<^verbatim>\<open>INSERT\<close> of the row is refused by the constraint. A row that does not
  fit the columns is refused and never stored. The same one-row property holds for the
  two NFT event tables under their dedup key.
\<close>

theorem add_twice_one_row:
  assumes cancels: "pk_holds cancel_events_pk rows"
    and fits: "cancel_events_fits r"
    and approvals: "pk_holds (\<lambda>ev. dedup_key (a_baseParams ev)) (nft_approval_events w)"
    and transfers: "pk_holds (\<lambda>ev. dedup_key (t_baseParams ev)) (nft_transfer_events w)"
  shows "(\<exists>rows1. addCancelEvents [r] rows = Inr rows1 \<and>
                  addCancelEvents [r] rows1 = Inr rows1 \<and>
                  rows_with_key cancel_events_pk (cancel_events_pk r) rows1 = 1 \<and>
                  pk_holds cancel_events_pk rows1) \<and>
         (\<forall>rows'. insert_row r rows = Inr rows' \<longrightarrow>
            insert_row r rows' = Inl (unique_violation ''cancel_events_pk'') \<and>
            rows_with_key cancel_events_pk (cancel_events_pk r) rows' = 1) \<and>
         (\<forall>r'. \<not> cancel_events_fits r' \<longrightarrow>
            insert_row r' rows = Inl numeric_value_out_of_range \<and>
            addCancelEvents [r'] rows = Inl numeric_value_out_of_range) \<and>
         rows_with_key (\<lambda>ev. dedup_key (a_baseParams ev)) (dedup_key (a_baseParams ae))
           (nft_approval_events (addNftApprovalEvents [ae] (addNftApprovalEvents [ae] w))) = 1 \<and>
         addNftApprovalEvents [ae] (addNftApprovalEvents [ae] w) = addNftApprovalEvents [ae] w \<and>
         rows_with_key (\<lambda>ev. dedup_key (t_baseParams ev)) (dedup_key (t_baseParams te))
           (nft_transfer_events (addNftTransferEvents [te] (addNftTransferEvents [te] w))) = 1 \<and>
         addNftTransferEvents [te] (addNftTransferEvents [te] w) = addNftTransferEvents [te] w"
proof -
  let ?rows1 = "add_row cancel_events_pk r rows"
  have a1: "addCancelEvents [r] rows = Inr ?rows1"
    by (rule addCancelEvents_one [OF fits])
  have a2: "addCancelEvents [r] ?rows1 = Inr ?rows1"
    by (simp only: addCancelEvents_one [OF fits] add_row_twice)
  have a3: "rows_with_key cancel_events_pk (cancel_events_pk r) ?rows1 = 1"
    by (rule add_row_one_row [OF cancels])
  have a4: "pk_holds cancel_events_pk ?rows1"
    by (rule add_row_pk_holds [OF cancels])
  from a1 a2 a3 a4
  have 1: "\<exists>rows1. addCancelEvents [r] rows = Inr rows1 \<and>
                  addCancelEvents [r] rows1 = Inr rows1 \<and>
                  rows_with_key cancel_events_pk (cancel_events_pk r) rows1 = 1 \<and>
                  pk_holds cancel_events_pk rows1"
    by blast
  have 2: "\<forall>rows'. insert_row r rows = Inr rows' \<longrightarrow>
            insert_row r rows' = Inl (unique_violation ''cancel_events_pk'') \<and>
            rows_with_key cancel_events_pk (cancel_events_pk r) rows' = 1"
    using insert_row_again [of r rows] insert_row_Inr [of r rows] a3 by auto
  have 3: "\<forall>r'. \<not> cancel_events_fits r' \<longrightarrow>
            insert_row r' rows = Inl numeric_value_out_of_range \<and>
            addCancelEvents [r'] rows = Inl numeric_value_out_of_range"
    using addCancelEvents_refused by blast
  have 4: "rows_with_key (\<lambda>ev. dedup_key (a_baseParams ev)) (dedup_key (a_baseParams ae))
           (nft_approval_events (addNftApprovalEvents [ae] (addNftApprovalEvents [ae] w))) = 1"
    using add_rows_one_row [OF approvals, of ae]
    by (simp add: addNftApprovalEvents_def)
  have 5: "addNftApprovalEvents [ae] (addNftApprovalEvents [ae] w) = addNftApprovalEvents [ae] w"
    by (simp add: addNftApprovalEvents_def add_rows_twice)
  have 6: "rows_with_key (\<lambda>ev. dedup_key (t_baseParams ev)) (dedup_key (t_baseParams te))
           (nft_transfer_events (addNftTransferEvents [te] (addNftTransferEvents [te] w))) = 1"
    using add_rows_one_row [OF transfers, of te]
    by (simp add: addNftTransferEvents_def)
  have 7: "addNftTransferEvents [te] (addNftTransferEvents [te] w) = addNftTransferEvents [te] w"
    by (simp add: addNftTransferEvents_def add_rows_twice)
  from 1 2 3 4 5 6 7 show ?thesis by blast
qed

text \<open>
  One cancellation, one approval and one transfer, each added twice to an empty table,
  and the cancellation stamped past the range of its column.
\<close>

theorem add_twice_one_row_witness:
  "pk_holds cancel_events_pk ([] :: string cancel_events_row list) \<and>
   cancel_events_fits sample_cancel \<and>
   \<not> cancel_events_fits late_cancel \<and>
   addCancelEvents [sample_cancel] [] = Inr [sample_cancel] \<and>
   addCancelEvents [sample_cancel] [sample_cancel] = Inr [sample_cancel] \<and>
   rows_with_key cancel_events_pk (''0xb10c'', ''0x7a'', 6) [sample_cancel] = 1 \<and>
   insert_row sample_cancel [sample_cancel] = Inl (unique_violation ''cancel_events_pk'') \<and>
   insert_row late_cancel [] = Inl numeric_value_out_of_range \<and>
   addCancelEvents [late_cancel] [] = Inl numeric_value_out_of_range \<and>
   nft_approval_events
     (addNftApprovalEvents [sample_approval] (addNftApprovalEvents [sample_approval] empty_world)) =
     [sample_approval] \<and>
   nft_transfer_events
     (addNftTransferEvents [sample_transfer] (addNftTransferEvents [sample_transfer] empty_world)) =
     [sample_transfer]"
proof -
  have c: "pk_holds cancel_events_pk ([] :: string cancel_events_row list)"
    by (simp add: pk_holds_def)
  have f: "cancel_events_fits sample_cancel"
    by (simp add: cancel_events_fits_def int4_def sample_cancel_def)
  have g: "\<not> cancel_events_fits late_cancel"
    by (simp add: cancel_events_fits_def int4_def late_cancel_def sample_cancel_def)
  have a: "pk_holds (\<lambda>ev. dedup_key (a_baseParams ev)) (nft_approval_events empty_world)"
    by (simp add: pk_holds_def empty_world_def)
  have t: "pk_holds (\<lambda>ev. dedup_key (t_baseParams ev)) (nft_transfer_events empty_world)"
    by (simp add: pk_holds_def empty_world_def)
  have k: "cancel_events_pk sample_cancel = (''0xb10c'', ''0x7a'', 6)"
    by (simp add: cancel_events_pk_def sample_cancel_def)
  have i: "insert_row sample_cancel [] = Inr [sample_cancel]"
    using f by (simp add: insert_row_def)
  have 1: "addCancelEvents [sample_cancel] [] = Inr [sample_cancel]"
    using i by simp
  have 2: "nft_approval_events (addNftApprovalEvents [sample_approval] empty_world) = [sample_approval]"
    by (simp add: addNftApprovalEvents_def add_rows_def add_row_def empty_world_def)
  have 3: "nft_transfer_events (addNftTransferEvents [sample_transfer] empty_world) = [sample_transfer]"
    by (simp add: addNftTransferEvents_def add_rows_def add_row_def empty_world_def)
  note th = add_twice_one_row [OF c f a t, of sample_approval sample_transfer]
  from th 1 have 4: "addCancelEvents [sample_cancel] [sample_cancel] = Inr [sample_cancel] \<and>
      rows_with_key cancel_events_pk (cancel_events_pk sample_cancel) [sample_cancel] = 1"
    by auto
  from th i have 5: "insert_row sample_cancel [sample_cancel] = Inl (unique_violation ''cancel_events_pk'')"
    by blast
  from th g have 6: "insert_row late_cancel [] = Inl numeric_value_out_of_range \<and>
      addCancelEvents [late_cancel] [] = Inl numeric_value_out_of_range"
    by blast
  from th have 7: "nft_approval_events
     (addNftApprovalEvents [sample_approval] (addNftApprovalEvents [sample_approval] empty_world)) =
     [sample_approval]"
    by (simp add: 2)
  from th have 8: "nft_transfer_events
     (addNftTransferEvents [sample_transfer] (addNftTransferEvents [sample_transfer] empty_world)) =
     [sample_transfer]"
    by (simp add: 3)
  from c f g 1 4 5 6 7 8 show ?thesis
    by (simp add: k)
qed

subsection \<open>C6\<close>

text \<open>
  C6. \<^verbatim>\<open>fixCallback(blockHash)\<close> removes every approval event and every transfer event
  stored under that block hash, leaves the rows of other blocks, the queue and the
  logger as they are, and a second call for the same hash changes nothing.
\<close>

theorem fixCallback_removes:
  "nft_approval_events (fixCallback h w) =
     filter (\<lambda>ev. bp_blockHash (a_baseParams ev) \<noteq> h) (nft_approval_events w) \<and>
   nft_transfer_events (fixCallback h w) =
     filter (\<lambda>ev. bp_blockHash (t_baseParams ev) \<noteq> h) (nft_transfer_events w) \<and>
   (\<forall>ev\<in>set (nft_approval_events (fixCallback h w)). bp_blockHash (a_baseParams ev) \<noteq> h) \<and>
   (\<forall>ev\<in>set (nft_transfer_events (fixCallback h w)). bp_blockHash (t_baseParams ev) \<noteq> h) \<and>
   orders_update_by_maker (fixCallback h w) = orders_update_by_maker w \<and>
   logger_errors (fixCallback h w) = logger_errors w \<and>
   fixCallback h (fixCallback h w) = fixCallback h w"
  by (simp add: fixCallback_def removeNftTransferEvents_def removeNftApprovalEvents_def
        removeByBlockHash_def)

text \<open>
  A world with events of two blocks: the rollback of the first leaves the transfer of
  the second.
\<close>

theorem fixCallback_removes_witness:
  "fixCallback ''0xb10c'' sample_world =
     \<lparr>nft_approval_events = [], nft_transfer_events = [other_block_transfer],
      orders_update_by_maker = [], logger_errors = []\<rparr> \<and>
   fixCallback ''0xb10c'' (fixCallback ''0xb10c'' sample_world) =
     \<lparr>nft_approval_events = [], nft_transfer_events = [other_block_transfer],
      orders_update_by_maker = [], logger_errors = []\<rparr> \<and>
   list_all (\<lambda>ev. bp_blockHash (t_baseParams ev) \<noteq> ''0xb10c'')
     (nft_transfer_events (fixCallback ''0xb10c'' sample_world))"
proof -
  have f: "fixCallback ''0xb10c'' sample_world =
     \<lparr>nft_approval_events = [], nft_transfer_events = [other_block_transfer],
      orders_update_by_maker = [], logger_errors = []\<rparr>"
    by code_simp
  note r = fixCallback_removes [of "''0xb10c''" sample_world]
  from r have i: "fixCallback ''0xb10c'' (fixCallback ''0xb10c'' sample_world) =
          fixCallback ''0xb10c'' sample_world"
    by blast
  from r have "\<forall>ev\<in>set (nft_transfer_events (fixCallback ''0xb10c'' sample_world)).
          bp_blockHash (t_baseParams ev) \<noteq> ''0xb10c''"
    by blast
  then have "list_all (\<lambda>ev. bp_blockHash (t_baseParams ev) \<noteq> ''0xb10c'')
           (nft_transfer_events (fixCallback ''0xb10c'' sample_world))"
    by (simp only: list_all_iff)
  with i have "fixCallback ''0xb10c'' (fixCallback ''0xb10c'' sample_world) =
          fixCallback ''0xb10c'' sample_world \<and>
        list_all (\<lambda>ev. bp_blockHash (t_baseParams ev) \<noteq> ''0xb10c'')
           (nft_transfer_events (fixCallback ''0xb10c'' sample_world))"
    by blast
  with f show ?thesis by simp
qed

subsection \<open>C7\<close>

text \<open>
  C7. Every transfer event the adapter decodes from a batch has the amount \<^verbatim>\<open>"1"\<close>:
  neither \<^verbatim>\<open>Transfer\<close> signature has an amount parameter, and the case body sets the
  constant.
\<close>

theorem default_amount:
  "\<forall>ev\<in>set (transferEvents (decoded e logs)). t_amount ev = ''1''"
  unfolding decoded_def
  by (rule forLoop_amount) (simp add: empty_acc_def)

text \<open>
  A standard and a non-standard transfer: both decoded events carry \<^verbatim>\<open>"1"\<close>.
\<close>

theorem default_amount_witness:
  "transferEvents (decoded (erc721_env True) [transfer_log, old_transfer_log]) =
     [\<lparr>t_tokenId = ''42'', t_from = alice, t_to = bob, t_amount = ''1'',
       t_baseParams = sample_baseParams 0\<rparr>,
      \<lparr>t_tokenId = ''42'', t_from = alice, t_to = bob, t_amount = ''1'',
       t_baseParams = sample_baseParams 1\<rparr>] \<and>
   list_all (\<lambda>ev. t_amount ev = ''1'')
     (transferEvents (decoded (erc721_env True) [transfer_log, old_transfer_log]))"
proof -
  have d: "transferEvents (decoded (erc721_env True) [transfer_log, old_transfer_log]) =
     [\<lparr>t_tokenId = ''42'', t_from = alice, t_to = bob, t_amount = ''1'',
       t_baseParams = sample_baseParams 0\<rparr>,
      \<lparr>t_tokenId = ''42'', t_from = alice, t_to = bob, t_amount = ''1'',
       t_baseParams = sample_baseParams 1\<rparr>]"
    by code_simp
  from default_amount [of "erc721_env True" "[transfer_log, old_transfer_log]"]
  have "list_all (\<lambda>ev. t_amount ev = ''1'')
     (transferEvents (decoded (erc721_env True) [transfer_log, old_transfer_log]))"
    by (simp only: list_all_iff)
  with d show ?thesis by blast
qed

subsection \<open>C8\<close>

text \<open>
  C8. The filter of \<^verbatim>\<open>getContractInfo(address)\<close> holds exactly the address list that
  was passed in (the empty list when none was), under the key \<^verbatim>\<open>address\<close>, and sets
  no topics.
\<close>

theorem filter_addresses:
  "filter_address (ci_filter (getContractInfo e (Some addresses))) = addresses \<and>
   filter_topics (ci_filter (getContractInfo e (Some addresses))) = None \<and>
   filter_address (ci_filter (getContractInfo e None)) = []"
  by (simp add: getContractInfo_def)

subsection \<open>C9\<close>

text \<open>
  C9. When any step of the \<^verbatim>\<open>try\<close> block throws on a log (base-parameter extraction,
  either parse, reading or converting an argument), the three arrays are what they were
  before that log: every step that can throw comes before the first push. The
  \<^verbatim>\<open>catch\<close> clause then adds one error line and nothing else.
\<close>

theorem failed_log_contributes_nothing:
  assumes "tryBody e log a = (Some err, a')"
  shows "a' = a \<and>
         processLog e log (a, lg) = (a, lg @ [(''erc721_callback'', could_not_parse err)])"
proof -
  from assms have "a' = a" by (rule tryBody_throws)
  with assms show ?thesis
    by (simp add: processLog_def logger_error_def)
qed

text \<open>
  An unparsable transfer log, met after a good transfer has been accumulated.
\<close>

theorem failed_log_contributes_nothing_witness:
  "tryBody (erc721_env True) bad_log (decoded (erc721_env True) [transfer_log]) =
     (Some (Error ''Error: data out-of-bounds''), decoded (erc721_env True) [transfer_log]) \<and>
   processLog (erc721_env True) bad_log (decoded (erc721_env True) [transfer_log], []) =
     (decoded (erc721_env True) [transfer_log],
      [(''erc721_callback'', ''Could not parse log [object Object]: Error: data out-of-bounds'')])"
proof -
  have h: "tryBody (erc721_env True) bad_log (decoded (erc721_env True) [transfer_log]) =
     (Some (Error ''Error: data out-of-bounds''), decoded (erc721_env True) [transfer_log])"
    by code_simp
  have m: "could_not_parse (Error ''Error: data out-of-bounds'') =
     ''Could not parse log [object Object]: Error: data out-of-bounds''"
    by (simp add: could_not_parse_def)
  from failed_log_contributes_nothing [OF h, of "[]"] h m show ?thesis
    by simp
qed

subsection \<open>C10\<close>

text \<open>
  C10. A log whose \<^verbatim>\<open>topics[0]\<close> matches neither the \<^verbatim>\<open>Transfer\<close> nor the
  \<^verbatim>\<open>ApprovalForAll\<close> topic is skipped silently: once its base parameters are
  extracted (the call that precedes the \<^verbatim>\<open>switch\<close>), the \<^verbatim>\<open>switch\<close> pushes no
  event and no maker info and throws nothing, so no error line is logged, and the batch
  with the log and the batch without it leave the same world. This holds for every
  extractor; with the extractor of the concrete environment it holds for every log that
  carries its metadata, as every log of the provider's declared type does.
\<close>

theorem unrecognised_topic_skipped:
  "(parseEvent e log = Inr bp \<and> \<not> recognised e log \<longrightarrow>
      tryBody e log a = (None, a) \<and>
      processLog e log s = s \<and>
      syncCallback e (xs @ log # ys) backfill w = syncCallback e (xs @ ys) backfill w) \<and>
   (carries_metadata log \<and> \<not> recognised (erc721_env accept) log \<longrightarrow>
      tryBody (erc721_env accept) log a = (None, a) \<and>
      processLog (erc721_env accept) log s = s \<and>
      syncCallback (erc721_env accept) (xs @ log # ys) backfill w =
        syncCallback (erc721_env accept) (xs @ ys) backfill w)"
proof -
  have 1: "tryBody e log a = (None, a) \<and>
      processLog e log s = s \<and>
      syncCallback e (xs @ log # ys) backfill w = syncCallback e (xs @ ys) backfill w"
    if h: "parseEvent e log = Inr bp \<and> \<not> recognised e log"
  proof -
    from h have p: "parseEvent e log = Inr bp" and r: "\<not> recognised e log"
      by simp_all
    show ?thesis
      using tryBody_unrecognised [OF p r] processLog_unrecognised [OF p r]
        syncCallback_unrecognised [OF p r]
      by blast
  qed
  have 2: "tryBody (erc721_env accept) log a = (None, a) \<and>
      processLog (erc721_env accept) log s = s \<and>
      syncCallback (erc721_env accept) (xs @ log # ys) backfill w =
        syncCallback (erc721_env accept) (xs @ ys) backfill w"
    if h: "carries_metadata log \<and> \<not> recognised (erc721_env accept) log"
  proof -
    from h have r: "\<not> recognised (erc721_env accept) log" by simp
    from h obtain bp' where p: "parseEvent (erc721_env accept) log = Inr bp'"
      using parseEvent_spec_metadata by blast
    show ?thesis
      using tryBody_unrecognised [OF p r] processLog_unrecognised [OF p r]
        syncCallback_unrecognised [OF p r]
      by blast
  qed
  from 1 2 show ?thesis by blast
qed

text \<open>
  The single-token \<^verbatim>\<open>Approval\<close> log of the sample block is skipped, after and before
  a transfer.
\<close>

theorem unrecognised_topic_skipped_witness:
  "parseEvent (erc721_env True) other_log = Inr (sample_baseParams 3) \<and>
   carries_metadata other_log \<and>
   \<not> recognised (erc721_env True) other_log \<and>
   processLog (erc721_env True) other_log (empty_acc, []) = (empty_acc, []) \<and>
   syncCallback (erc721_env True) [transfer_log, other_log] None empty_world =
     syncCallback (erc721_env True) [transfer_log] None empty_world \<and>
   syncCallback (erc721_env True) [other_log, transfer_log] None empty_world =
     syncCallback (erc721_env True) [transfer_log] None empty_world"
proof -
  have p: "parseEvent (erc721_env True) other_log = Inr (sample_baseParams 3)"
    by code_simp
  have m: "carries_metadata other_log"
    by code_simp
  have r: "\<not> recognised (erc721_env True) other_log"
    by code_simp
  note th1 = unrecognised_topic_skipped [of "erc721_env True" other_log "sample_baseParams 3"
      empty_acc "(empty_acc, [])" "[transfer_log]" "[]" None empty_world True]
  note th2 = unrecognised_topic_skipped [of "erc721_env True" other_log "sample_baseParams 3"
      empty_acc "(empty_acc, [])" "[]" "[transfer_log]" None empty_world True]
  from th1 p r have 1: "processLog (erc721_env True) other_log (empty_acc, []) = (empty_acc, [])"
    and 2: "syncCallback (erc721_env True) ([transfer_log] @ other_log # []) None empty_world =
     syncCallback (erc721_env True) ([transfer_log] @ []) None empty_world"
    by blast+
  from th2 m r have 3: "syncCallback (erc721_env True) ([] @ other_log # [transfer_log]) None empty_world =
     syncCallback (erc721_env True) ([] @ [transfer_log]) None empty_world"
    by blast
  from p m r 1 2 3 show ?thesis by simp
qed

end
